theory Spec2Isabelle
  imports Complex_Main "HOL-Library.AList" "HOL-Library.Char_ord" "HOL-Library.List_Lexorder"
    "HOL-Library.Multiset"
begin

section \<open>Column values and their arithmetic\<close>

text \<open>
  The indicator engine (\<^verbatim>\<open>backend/data/stock_indicators.py\<close>) works on pandas columns of
  float64. A column entry is modelled as a value of \<open>fval\<close>: not-a-number, a finite number,
  or one of the two infinities. Finite numbers are exact reals: rounding, overflow and the
  sign of zero are outside the model (a zero divisor is taken as \<open>+0\<close>).
\<close>

datatype fval = NaN | Fin real | PInf | NInf

datatype py_error = KeyError | ValueError | ZeroDivisionError

fun fneg :: "fval \<Rightarrow> fval" where
  "fneg NaN = NaN"
| "fneg (Fin a) = Fin (- a)"
| "fneg PInf = NInf"
| "fneg NInf = PInf"

fun fadd :: "fval \<Rightarrow> fval \<Rightarrow> fval" where
  "fadd (Fin a) (Fin b) = Fin (a + b)"
| "fadd (Fin a) PInf = PInf"
| "fadd (Fin a) NInf = NInf"
| "fadd PInf (Fin b) = PInf"
| "fadd PInf PInf = PInf"
| "fadd NInf (Fin b) = NInf"
| "fadd NInf NInf = NInf"
| "fadd PInf NInf = NaN"
| "fadd NInf PInf = NaN"
| "fadd NaN b = NaN"
| "fadd a NaN = NaN"

definition fsub :: "fval \<Rightarrow> fval \<Rightarrow> fval" where
  "fsub a b = fadd a (fneg b)"

fun fmul :: "fval \<Rightarrow> fval \<Rightarrow> fval" where
  "fmul (Fin a) (Fin b) = Fin (a * b)"
| "fmul (Fin a) PInf = (if a = 0 then NaN else if 0 < a then PInf else NInf)"
| "fmul (Fin a) NInf = (if a = 0 then NaN else if 0 < a then NInf else PInf)"
| "fmul PInf (Fin b) = (if b = 0 then NaN else if 0 < b then PInf else NInf)"
| "fmul NInf (Fin b) = (if b = 0 then NaN else if 0 < b then NInf else PInf)"
| "fmul PInf PInf = PInf"
| "fmul NInf NInf = PInf"
| "fmul PInf NInf = NInf"
| "fmul NInf PInf = NInf"
| "fmul NaN b = NaN"
| "fmul a NaN = NaN"

fun fdiv :: "fval \<Rightarrow> fval \<Rightarrow> fval" where
  "fdiv (Fin a) (Fin b) =
     (if b = 0 then (if a = 0 then NaN else if 0 < a then PInf else NInf) else Fin (a / b))"
| "fdiv (Fin a) PInf = Fin 0"
| "fdiv (Fin a) NInf = Fin 0"
| "fdiv PInf (Fin b) = (if 0 \<le> b then PInf else NInf)"
| "fdiv NInf (Fin b) = (if 0 \<le> b then NInf else PInf)"
| "fdiv PInf PInf = NaN"
| "fdiv PInf NInf = NaN"
| "fdiv NInf PInf = NaN"
| "fdiv NInf NInf = NaN"
| "fdiv NaN b = NaN"
| "fdiv a NaN = NaN"

text \<open>Comparisons: every comparison with not-a-number is false.\<close>

fun flt :: "fval \<Rightarrow> fval \<Rightarrow> bool" where
  "flt (Fin a) (Fin b) = (a < b)"
| "flt (Fin a) PInf = True"
| "flt NInf (Fin b) = True"
| "flt NInf PInf = True"
| "flt a b = False"

definition fgt :: "fval \<Rightarrow> fval \<Rightarrow> bool" where
  "fgt a b = flt b a"

text \<open>\<^verbatim>\<open>x != y\<close> on floats: true as soon as one side is not-a-number.\<close>

fun fne :: "fval \<Rightarrow> fval \<Rightarrow> bool" where
  "fne NaN b = True"
| "fne a NaN = True"
| "fne a b = (a \<noteq> b)"

definition is_observation :: "fval \<Rightarrow> bool" where
  "is_observation v = (v \<noteq> NaN)"

section \<open>Series operations of the library\<close>

text \<open>\<^verbatim>\<open>Series.shift(1)\<close> and \<^verbatim>\<open>Series.diff()\<close>.\<close>

definition shift1 :: "fval list \<Rightarrow> fval list" where
  "shift1 xs = (case xs of [] \<Rightarrow> [] | _ # _ \<Rightarrow> NaN # butlast xs)"

definition diff :: "fval list \<Rightarrow> fval list" where
  "diff xs = map (\<lambda>(cur, prev). fsub cur prev) (zip xs (shift1 xs))"

text \<open>
  \<^verbatim>\<open>Series.rolling(window=w)\<close>: the window at position \<open>i\<close> holds the entries
  \<open>max(0, i - w + 1) .. i\<close>, and \<open>min_periods\<close> defaults to \<open>w\<close>. Infinite entries are
  turned into not-a-number before any window statistic, so the observations of a window
  are its finite entries. A negative window raises \<^verbatim>\<open>ValueError\<close>.
\<close>

definition window_at :: "nat \<Rightarrow> fval list \<Rightarrow> nat \<Rightarrow> fval list" where
  "window_at w xs i = drop (Suc i - w) (take (Suc i) xs)"

primrec observations :: "fval list \<Rightarrow> real list" where
  "observations [] = []"
| "observations (v # vs) =
     (case v of Fin x \<Rightarrow> x # observations vs | _ \<Rightarrow> observations vs)"

definition rolling :: "nat \<Rightarrow> (fval list \<Rightarrow> fval) \<Rightarrow> fval list \<Rightarrow> fval list" where
  "rolling w f xs = map (\<lambda>i. f (window_at w xs i)) [0..<length xs]"

definition window_mean :: "nat \<Rightarrow> fval list \<Rightarrow> fval" where
  "window_mean minp win =
     (let obs = observations win
      in if minp \<le> length obs \<and> 0 < length obs
         then Fin (sum_list obs / real (length obs)) else NaN)"

definition window_min :: "nat \<Rightarrow> fval list \<Rightarrow> fval" where
  "window_min minp win =
     (case observations win of [] \<Rightarrow> NaN
      | x # r \<Rightarrow> if minp \<le> Suc (length r) then Fin (fold min r x) else NaN)"

definition window_max :: "nat \<Rightarrow> fval list \<Rightarrow> fval" where
  "window_max minp win =
     (case observations win of [] \<Rightarrow> NaN
      | x # r \<Rightarrow> if minp \<le> Suc (length r) then Fin (fold max r x) else NaN)"

text \<open>The sample standard deviation (\<open>ddof = 1\<close>) of a window.\<close>

definition window_std :: "nat \<Rightarrow> fval list \<Rightarrow> fval" where
  "window_std minp win =
     (let obs = observations win; n = length obs
      in if minp \<le> n \<and> 1 < n
         then (let m = sum_list obs / real n
               in Fin (sqrt (sum_list (map (\<lambda>x. (x - m)\<^sup>2) obs) / (real n - 1))))
         else NaN)"

definition rolling_mean :: "int \<Rightarrow> fval list \<Rightarrow> py_error + fval list" where
  "rolling_mean window xs =
     (if window < 0 then Inl ValueError
      else Inr (rolling (nat window) (window_mean (nat window)) xs))"

definition rolling_min :: "int \<Rightarrow> fval list \<Rightarrow> py_error + fval list" where
  "rolling_min window xs =
     (if window < 0 then Inl ValueError
      else Inr (rolling (nat window) (window_min (nat window)) xs))"

definition rolling_max :: "int \<Rightarrow> fval list \<Rightarrow> py_error + fval list" where
  "rolling_max window xs =
     (if window < 0 then Inl ValueError
      else Inr (rolling (nat window) (window_max (nat window)) xs))"

definition rolling_std :: "int \<Rightarrow> fval list \<Rightarrow> py_error + fval list" where
  "rolling_std window xs =
     (if window < 0 then Inl ValueError
      else Inr (rolling (nat window) (window_std (nat window)) xs))"

text \<open>
  \<^verbatim>\<open>Series.ewm(..., adjust=False).mean()\<close> with the defaults \<open>min_periods = 0\<close> and
  \<open>ignore_na = False\<close>. As for the rolling windows, infinite entries are turned into
  not-a-number first. The library's loop keeps the running mean \<open>weighted\<close>, the weight
  \<open>old_wt\<close> of that mean and the number \<open>nobs\<close> of observations seen; the first entry
  seeds the mean, a missing entry ages the weight, and an observation after a missing mean
  seeds it again. \<open>old_wt_factor\<close> is \<open>1 - alpha\<close>, and an output needs at least one
  observation. The weight \<open>new_wt\<close> of a new entry is the smoothing factor \<open>alpha\<close>, except
  that for \<open>com = 1\<close>, that is \<open>alpha = 1/2\<close>, the loop takes \<open>1 - old_wt\<close> with the aged
  weight; the two agree unless an entry was missing in between.
\<close>

definition prep_values :: "fval list \<Rightarrow> fval list" where
  "prep_values vals = map (\<lambda>v. case v of Fin x \<Rightarrow> Fin x | _ \<Rightarrow> NaN) vals"

fun ewm_loop :: "real \<Rightarrow> fval \<Rightarrow> real \<Rightarrow> nat \<Rightarrow> fval list \<Rightarrow> fval list" where
  "ewm_loop alpha weighted old_wt nobs [] = []"
| "ewm_loop alpha weighted old_wt nobs (cur # rest) =
     (let nobs' = (if is_observation cur then Suc nobs else nobs);
          aged = old_wt * (1 - alpha);
          new_wt = (if alpha = 1 / 2 then 1 - aged else alpha);
          weighted' =
            (if is_observation weighted
             then (if is_observation cur \<and> fne weighted cur
                   then fdiv (fadd (fmul (Fin aged) weighted) (fmul (Fin new_wt) cur))
                          (Fin (aged + new_wt))
                   else weighted)
             else (if is_observation cur then cur else weighted));
          old_wt' =
            (if is_observation weighted
             then (if is_observation cur then 1 else aged)
             else old_wt)
      in (if 1 \<le> nobs' then weighted' else NaN)
         # ewm_loop alpha weighted' old_wt' nobs' rest)"

definition ewm_mean :: "real \<Rightarrow> fval list \<Rightarrow> fval list" where
  "ewm_mean alpha vals =
     (case prep_values vals of [] \<Rightarrow> []
      | v # rest \<Rightarrow>
          (let nobs = (if is_observation v then 1 else 0)
           in (if 1 \<le> nobs then v else NaN) # ewm_loop alpha v 1 nobs rest))"

text \<open>\<^verbatim>\<open>ewm(span=s)\<close> needs \<open>s \<ge> 1\<close>; its smoothing factor is \<open>2 / (s + 1)\<close>.\<close>

definition ewm_span_mean :: "int \<Rightarrow> fval list \<Rightarrow> py_error + fval list" where
  "ewm_span_mean s xs =
     (if s < 1 then Inl ValueError else Inr (ewm_mean (2 / (real_of_int s + 1)) xs))"

text \<open>\<^verbatim>\<open>ewm(alpha=a)\<close> needs \<open>0 < a \<le> 1\<close>.\<close>

definition ewm_alpha_mean :: "real \<Rightarrow> fval list \<Rightarrow> py_error + fval list" where
  "ewm_alpha_mean a xs =
     (if a \<le> 0 \<or> 1 < a then Inl ValueError else Inr (ewm_mean a xs))"

text \<open>
  \<^verbatim>\<open>Series.pct_change()\<close> with the classic default \<open>fill_method = 'pad'\<close>: missing entries
  take the last entry before them, then each entry is divided by the one before it.
\<close>

fun ffill_from :: "fval \<Rightarrow> fval list \<Rightarrow> fval list" where
  "ffill_from filler [] = []"
| "ffill_from filler (x # xs) =
     (if is_observation x then x # ffill_from x xs else filler # ffill_from filler xs)"

definition pct_change :: "fval list \<Rightarrow> fval list" where
  "pct_change xs =
     (let filled = ffill_from NaN xs
      in map (\<lambda>(cur, prev). fsub (fdiv cur prev) (Fin 1)) (zip filled (shift1 filled)))"

text \<open>\<^verbatim>\<open>numpy.cumsum\<close>: the running sum; not-a-number is carried on.\<close>

fun cumsum_from :: "fval \<Rightarrow> fval list \<Rightarrow> fval list" where
  "cumsum_from acc [] = []"
| "cumsum_from acc (x # xs) = fadd acc x # cumsum_from (fadd acc x) xs"

definition cumsum :: "fval list \<Rightarrow> fval list" where
  "cumsum xs = cumsum_from (Fin 0) xs"

section \<open>Data frames\<close>

text \<open>
  A data frame is the list of its columns, in order, each under its name. Reading a
  column that is absent raises \<^verbatim>\<open>KeyError\<close>; assigning a column replaces it in place or
  appends it.
\<close>

type_synonym dataframe = "(string \<times> fval list) list"

definition has_column :: "dataframe \<Rightarrow> string \<Rightarrow> bool" where
  "has_column df c = (map_of df c \<noteq> None)"

definition get_column :: "dataframe \<Rightarrow> string \<Rightarrow> py_error + fval list" where
  "get_column df c = (case map_of df c of None \<Rightarrow> Inl KeyError | Some xs \<Rightarrow> Inr xs)"

definition set_column :: "dataframe \<Rightarrow> string \<Rightarrow> fval list \<Rightarrow> dataframe" where
  "set_column df c xs = AList.update c xs df"

definition drop_columns :: "dataframe \<Rightarrow> string list \<Rightarrow> dataframe" where
  "drop_columns df cs = fold AList.delete cs df"

text \<open>The decimal text of an integer, as an f-string prints it.\<close>

definition digit_char :: "nat \<Rightarrow> char" where
  "digit_char d = ''0123456789'' ! d"

fun string_of_nat :: "nat \<Rightarrow> string" where
  "string_of_nat n =
     (if n < 10 then [digit_char n] else string_of_nat (n div 10) @ [digit_char (n mod 10)])"

declare string_of_nat.simps [simp del]

definition str_int :: "int \<Rightarrow> string" where
  "str_int i = (if i < 0 then CHR ''-'' # string_of_nat (nat (- i)) else string_of_nat (nat i))"

section \<open>The indicator engine (class \<^verbatim>\<open>TechnicalIndicators\<close>)\<close>

fun calculate_ma :: "dataframe \<Rightarrow> string \<Rightarrow> int list \<Rightarrow> py_error + dataframe" where
  "calculate_ma result column [] = Inr result"
| "calculate_ma result column (period # periods) =
     (case get_column result column of
        Inl e \<Rightarrow> Inl e
      | Inr xs \<Rightarrow>
          (case rolling_mean period xs of
             Inl e \<Rightarrow> Inl e
           | Inr ys \<Rightarrow>
               calculate_ma (set_column result (''MA'' @ str_int period) ys) column periods))"

fun calculate_ema :: "dataframe \<Rightarrow> string \<Rightarrow> int list \<Rightarrow> py_error + dataframe" where
  "calculate_ema result column [] = Inr result"
| "calculate_ema result column (period # periods) =
     (case get_column result column of
        Inl e \<Rightarrow> Inl e
      | Inr xs \<Rightarrow>
          (case ewm_span_mean period xs of
             Inl e \<Rightarrow> Inl e
           | Inr ys \<Rightarrow>
               calculate_ema (set_column result (''EMA'' @ str_int period) ys) column periods))"

definition calculate_macd ::
  "dataframe \<Rightarrow> string \<Rightarrow> int \<Rightarrow> int \<Rightarrow> int \<Rightarrow> py_error + dataframe" where
  "calculate_macd df column fast slow signal =
     (case get_column df column of
        Inl e \<Rightarrow> Inl e
      | Inr xs \<Rightarrow>
     (case ewm_span_mean fast xs of
        Inl e \<Rightarrow> Inl e
      | Inr ema_fast \<Rightarrow>
     (case ewm_span_mean slow xs of
        Inl e \<Rightarrow> Inl e
      | Inr ema_slow \<Rightarrow>
     (let dif = map (\<lambda>(f, s). fsub f s) (zip ema_fast ema_slow)
      in (case ewm_span_mean signal dif of
            Inl e \<Rightarrow> Inl e
          | Inr dea \<Rightarrow>
              (let hist = map (\<lambda>(a, b). fmul (Fin 2) (fsub a b)) (zip dif dea)
               in Inr (set_column (set_column (set_column df ''MACD_DIF'' dif)
                         ''MACD_DEA'' dea) ''MACD_HIST'' hist)))))))"

text \<open>
  The relative strength index. \<open>up\<close> keeps the rises of the column and \<open>down\<close> its falls,
  both as non-negative numbers; the first entry of each is not-a-number, as the first
  difference is.
\<close>

definition rsi_up :: "fval list \<Rightarrow> fval list" where
  "rsi_up delta = map (\<lambda>x. if flt x (Fin 0) then Fin 0 else x) delta"

definition rsi_down :: "fval list \<Rightarrow> fval list" where
  "rsi_down delta = map (\<lambda>x. if flt x (Fin 0) then Fin 0 else x) (map fneg delta)"

definition rsi_value :: "fval \<Rightarrow> fval \<Rightarrow> fval" where
  "rsi_value avg_up avg_down =
     (let rs = fdiv avg_up avg_down
      in fsub (Fin 100) (fdiv (Fin 100) (fadd (Fin 1) rs)))"

definition rsi_series :: "int \<Rightarrow> fval list \<Rightarrow> py_error + fval list" where
  "rsi_series period delta =
     (case rolling_mean period (rsi_up delta) of
        Inl e \<Rightarrow> Inl e
      | Inr avg_up \<Rightarrow>
          (case rolling_mean period (rsi_down delta) of
             Inl e \<Rightarrow> Inl e
           | Inr avg_down \<Rightarrow>
               Inr (map (\<lambda>(u, d). rsi_value u d) (zip avg_up avg_down))))"

fun rsi_loop :: "dataframe \<Rightarrow> fval list \<Rightarrow> int list \<Rightarrow> py_error + dataframe" where
  "rsi_loop result delta [] = Inr result"
| "rsi_loop result delta (period # periods) =
     (case rsi_series period delta of
        Inl e \<Rightarrow> Inl e
      | Inr ys \<Rightarrow> rsi_loop (set_column result (''RSI'' @ str_int period) ys) delta periods)"

definition calculate_rsi :: "dataframe \<Rightarrow> string \<Rightarrow> int list \<Rightarrow> py_error + dataframe" where
  "calculate_rsi df column periods =
     (case get_column df column of
        Inl e \<Rightarrow> Inl e
      | Inr xs \<Rightarrow> rsi_loop df (diff xs) periods)"

text \<open>
  The stochastic oscillator. The three helper columns are written into the frame and
  dropped again at the end, as the source does. \<^verbatim>\<open>1/m1\<close> and \<^verbatim>\<open>1/m2\<close> are divisions of
  Python integers and raise \<^verbatim>\<open>ZeroDivisionError\<close> on zero.
\<close>

definition calculate_kdj ::
  "dataframe \<Rightarrow> string \<Rightarrow> string \<Rightarrow> string \<Rightarrow> int \<Rightarrow> int \<Rightarrow> int \<Rightarrow> py_error + dataframe" where
  "calculate_kdj df high_column low_column close_column n m1 m2 =
     (case get_column df low_column of
        Inl e \<Rightarrow> Inl e
      | Inr lows \<Rightarrow>
     (case rolling_min n lows of
        Inl e \<Rightarrow> Inl e
      | Inr low_n \<Rightarrow>
     (let r1 = set_column df ''low_n'' low_n
      in (case get_column r1 high_column of
            Inl e \<Rightarrow> Inl e
          | Inr highs \<Rightarrow>
     (case rolling_max n highs of
        Inl e \<Rightarrow> Inl e
      | Inr high_n \<Rightarrow>
     (let r2 = set_column r1 ''high_n'' high_n
      in (case get_column r2 close_column of
            Inl e \<Rightarrow> Inl e
          | Inr closes \<Rightarrow>
     (let rsv = map (\<lambda>(c, l, h).
                  fdiv (fmul (Fin 100) (fsub c l)) (fadd (fsub h l) (Fin (1 / 10 ^ 9))))
                  (zip closes (zip low_n high_n));
          r3 = set_column r2 ''RSV'' rsv
      in if m1 = 0 then Inl ZeroDivisionError
         else (case ewm_alpha_mean (1 / real_of_int m1) rsv of
                 Inl e \<Rightarrow> Inl e
               | Inr k \<Rightarrow>
         (let r4 = set_column r3 ''K'' k
          in if m2 = 0 then Inl ZeroDivisionError
             else (case ewm_alpha_mean (1 / real_of_int m2) k of
                     Inl e \<Rightarrow> Inl e
                   | Inr d \<Rightarrow>
             (let r5 = set_column r4 ''D'' d;
                  j = map (\<lambda>(a, b). fsub (fmul (Fin 3) a) (fmul (Fin 2) b)) (zip k d);
                  r6 = set_column r5 ''J'' j
              in Inr (drop_columns r6 [''low_n'', ''high_n'', ''RSV''])))))))))))))"

definition calculate_bollinger_bands ::
  "dataframe \<Rightarrow> string \<Rightarrow> int \<Rightarrow> real \<Rightarrow> py_error + dataframe" where
  "calculate_bollinger_bands df column window num_std =
     (case get_column df column of
        Inl e \<Rightarrow> Inl e
      | Inr xs \<Rightarrow>
     (case rolling_mean window xs of
        Inl e \<Rightarrow> Inl e
      | Inr bb_ma \<Rightarrow>
     (let r1 = set_column df ''BB_MA'' bb_ma
      in (case get_column r1 column of
            Inl e \<Rightarrow> Inl e
          | Inr xs' \<Rightarrow>
     (case rolling_std window xs' of
        Inl e \<Rightarrow> Inl e
      | Inr bb_std \<Rightarrow>
     (let spread = map (\<lambda>s. fmul s (Fin num_std)) bb_std;
          upper = map (\<lambda>(m, s). fadd m s) (zip bb_ma spread);
          lower = map (\<lambda>(m, s). fsub m s) (zip bb_ma spread);
          width = map (\<lambda>((u, l), m). fdiv (fsub u l) m) (zip (zip upper lower) bb_ma)
      in Inr (set_column (set_column (set_column (set_column r1 ''BB_STD'' bb_std)
                ''BB_Upper'' upper) ''BB_Lower'' lower) ''BB_Width'' width)))))))"

text \<open>
  On-balance volume: a bar adds its volume when the price rose against the bar before,
  subtracts it when the price fell, and adds nothing otherwise (so also on the first bar).
\<close>

definition obv_steps :: "fval list \<Rightarrow> fval list \<Rightarrow> fval list" where
  "obv_steps price vol =
     map (\<lambda>((p, q), v). if fgt p q then v else if flt p q then fneg v else Fin 0)
       (zip (zip price (shift1 price)) vol)"

definition calculate_volume_indicators ::
  "dataframe \<Rightarrow> string \<Rightarrow> string \<Rightarrow> py_error + dataframe" where
  "calculate_volume_indicators df volume_column price_column =
     (case get_column df volume_column of
        Inl e \<Rightarrow> Inl e
      | Inr vol \<Rightarrow>
     (case rolling_mean 5 vol of
        Inl e \<Rightarrow> Inl e
      | Inr vma5 \<Rightarrow>
     (let r1 = set_column df ''Volume_MA5'' vma5
      in (case get_column r1 volume_column of
            Inl e \<Rightarrow> Inl e
          | Inr vol1 \<Rightarrow>
     (case rolling_mean 10 vol1 of
        Inl e \<Rightarrow> Inl e
      | Inr vma10 \<Rightarrow>
     (let r2 = set_column r1 ''Volume_MA10'' vma10
      in (case get_column r2 volume_column of
            Inl e \<Rightarrow> Inl e
          | Inr vol2 \<Rightarrow>
     (let r3 = set_column r2 ''Volume_Change''
                 (map (\<lambda>c. fmul c (Fin 100)) (pct_change vol2))
      in (case get_column r3 price_column of
            Inl e \<Rightarrow> Inl e
          | Inr price \<Rightarrow>
     (case get_column r3 volume_column of
        Inl e \<Rightarrow> Inl e
      | Inr vol3 \<Rightarrow>
          Inr (set_column r3 ''OBV'' (cumsum (obv_steps price vol3)))))))))))))"

text \<open>
  All indicators of a frame. A frame without one of the required columns is reported in
  the log and handed back as it came; otherwise the seven families are added in turn, each
  called with its default parameters.
\<close>

definition required_columns :: "string list" where
  "required_columns = [''open'', ''high'', ''low'', ''close'', ''volume'']"

definition calculate_all_indicators :: "dataframe \<Rightarrow> py_error + dataframe" where
  "calculate_all_indicators df =
     (if list_ex (\<lambda>col. \<not> has_column df col) required_columns then Inr df
      else
     (case calculate_ma df ''close'' [5, 10, 20, 60] of
        Inl e \<Rightarrow> Inl e
      | Inr r1 \<Rightarrow>
     (case calculate_ema r1 ''close'' [5, 10, 20, 60] of
        Inl e \<Rightarrow> Inl e
      | Inr r2 \<Rightarrow>
     (case calculate_macd r2 ''close'' 12 26 9 of
        Inl e \<Rightarrow> Inl e
      | Inr r3 \<Rightarrow>
     (case calculate_rsi r3 ''close'' [6, 12, 24] of
        Inl e \<Rightarrow> Inl e
      | Inr r4 \<Rightarrow>
     (case calculate_kdj r4 ''high'' ''low'' ''close'' 9 3 3 of
        Inl e \<Rightarrow> Inl e
      | Inr r5 \<Rightarrow>
     (case calculate_bollinger_bands r5 ''close'' 20 2 of
        Inl e \<Rightarrow> Inl e
      | Inr r6 \<Rightarrow> calculate_volume_indicators r6 ''volume'' ''close'')))))))"

section \<open>Double-precision arithmetic of the store\<close>

text \<open>
  The store computes on IEEE 754 doubles: 53 significant bits, exponents from \<open>-1022\<close> to
  \<open>1023\<close>, every result rounded to the nearest double with ties to the even mantissa, and
  a result of magnitude \<open>2^1024\<close> or more an infinity. \<open>ilog2 a\<close> is the binary exponent of a
  positive number, the integer \<open>e\<close> with \<open>2^e \<le> a < 2^(e + 1)\<close>. \<open>round_double\<close> is the identity
  on doubles; a number written in decimal stands for the double nearest to it.
\<close>

function ilog2 :: "real \<Rightarrow> int" where
  "ilog2 a = (if 2 \<le> a then ilog2 (a / 2) + 1
              else if 0 < a \<and> a < 1 then ilog2 (a * 2) - 1 else 0)"
  by pat_completeness auto
termination
proof (relation "measure (\<lambda>a. if 1 \<le> a then nat \<lceil>a\<rceil> else nat \<lceil>1 / a\<rceil> + 2)")
  show "wf (measure (\<lambda>a::real. if 1 \<le> a then nat \<lceil>a\<rceil> else nat \<lceil>1 / a\<rceil> + 2))" by simp
next
  fix a :: real assume a: "2 \<le> a"
  have "\<lceil>a / 2\<rceil> \<le> \<lceil>a - 1\<rceil>" using a by (intro ceiling_mono) simp
  then have "\<lceil>a / 2\<rceil> < \<lceil>a\<rceil>" by simp
  moreover have "0 < \<lceil>a\<rceil>" using a by simp
  ultimately show "(a / 2, a) \<in> measure (\<lambda>a. if 1 \<le> a then nat \<lceil>a\<rceil> else nat \<lceil>1 / a\<rceil> + 2)"
    using a by simp
next
  fix a :: real assume "\<not> 2 \<le> a" and a: "0 < a \<and> a < 1"
  show "(a * 2, a) \<in> measure (\<lambda>a. if 1 \<le> a then nat \<lceil>a\<rceil> else nat \<lceil>1 / a\<rceil> + 2)"
  proof (cases "1 \<le> a * 2")
    case True
    from a have "a * 2 < 2" by simp
    then have "\<lceil>a * 2\<rceil> \<le> 2" by (simp add: ceiling_le_iff)
    moreover have "0 < \<lceil>1 / a\<rceil>" using a by simp
    ultimately have "nat \<lceil>a * 2\<rceil> < nat \<lceil>1 / a\<rceil> + 2"
      by linarith
    with True a show ?thesis by simp
  next
    case False
    with a have y: "2 < 1 / a" by (simp add: field_simps)
    have "\<lceil>1 / a / 2\<rceil> \<le> \<lceil>1 / a - 1\<rceil>" using y by (intro ceiling_mono) simp
    then have "\<lceil>1 / (a * 2)\<rceil> < \<lceil>1 / a\<rceil>" by (simp add: field_simps)
    moreover have "0 < \<lceil>1 / a\<rceil>" using a by simp
    ultimately show ?thesis using False a by simp
  qed
qed

declare ilog2.simps [simp del]

definition pow2 :: "int \<Rightarrow> real" where
  "pow2 k = (if 0 \<le> k then 2 ^ nat k else 1 / 2 ^ nat (- k))"

definition round_half_even :: "real \<Rightarrow> int" where
  "round_half_even m =
     (let f = \<lfloor>m\<rfloor>; d = m - of_int f
      in if d < 1 / 2 then f else if 1 / 2 < d then f + 1 else if even f then f else f + 1)"

text \<open>
  The exponent of the double nearest to a positive number (subnormal numbers share the
  least exponent) and its mantissa, an integer of at most 53 bits, or \<open>2^53\<close> when the
  rounding carries into the next exponent.
\<close>

definition double_exponent :: "real \<Rightarrow> int" where
  "double_exponent a = max (ilog2 a) (- 1022)"

definition double_mantissa :: "int \<Rightarrow> real \<Rightarrow> int" where
  "double_mantissa e a = round_half_even (a / pow2 (e - 52))"

definition round_at :: "int \<Rightarrow> real \<Rightarrow> fval" where
  "round_at e x =
     (if 1023 < e \<or> (e = 1023 \<and> 9007199254740992 \<le> double_mantissa e \<bar>x\<bar>)
      then (if 0 < x then PInf else NInf)
      else Fin (if 0 < x then of_int (double_mantissa e \<bar>x\<bar>) * pow2 (e - 52)
                else - (of_int (double_mantissa e \<bar>x\<bar>) * pow2 (e - 52))))"

definition round_double :: "real \<Rightarrow> fval" where
  "round_double x = (if x = 0 then Fin 0 else round_at (double_exponent \<bar>x\<bar>) x)"

text \<open>
  The arithmetic of the store on doubles. A result that is not a number is \<^verbatim>\<open>NULL\<close> in the
  store, so not-a-number stands for \<^verbatim>\<open>NULL\<close> here; dividing a real by zero is \<^verbatim>\<open>NULL\<close> as well.
\<close>

definition rounded :: "fval \<Rightarrow> fval" where
  "rounded v = (case v of Fin x \<Rightarrow> round_double x | _ \<Rightarrow> v)"

definition dadd :: "fval \<Rightarrow> fval \<Rightarrow> fval" where
  "dadd a b = rounded (fadd a b)"

definition dsub :: "fval \<Rightarrow> fval \<Rightarrow> fval" where
  "dsub a b = rounded (fsub a b)"

definition dmul :: "fval \<Rightarrow> fval \<Rightarrow> fval" where
  "dmul a b = rounded (fmul a b)"

definition ddiv :: "fval \<Rightarrow> fval \<Rightarrow> fval" where
  "ddiv a b = (if b = Fin 0 then NaN else rounded (fdiv a b))"

text \<open>A numeric column read for arithmetic: \<^verbatim>\<open>NULL\<close>, or the double it holds.\<close>

definition sql_real :: "real option \<Rightarrow> fval" where
  "sql_real v = (case v of None \<Rightarrow> NaN | Some x \<Rightarrow> round_double x)"

section \<open>The series store\<close>

text \<open>
  The filter engine (\<^verbatim>\<open>backend/models/stock_filter.py\<close>) reads two tables of the store:
  \<^verbatim>\<open>daily_data\<close> and \<^verbatim>\<open>technical_indicators\<close>. A row carries the symbol, the date (text, in
  the table's byte order) and the numeric columns, each of which may be \<^verbatim>\<open>NULL\<close>. Where
  numbers are only compared, or averaged over the volume window, they are exact reals; the
  quotients, sums, differences and products that the squeeze and the volume change compute
  are rounded as the store rounds them. The store is taken as opened with both tables
  created, and \<^verbatim>\<open>(code, date)\<close> is unique within a table, as the schema declares.
\<close>

record daily_row =
  d_code :: string
  d_date :: string
  d_open :: "real option"
  d_high :: "real option"
  d_low :: "real option"
  d_close :: "real option"
  d_volume :: "real option"
  d_amount :: "real option"
  d_pct_change :: "real option"
  d_turnover :: "real option"

record indicator_row =
  t_code :: string
  t_date :: string
  t_ma5 :: "real option"
  t_ma10 :: "real option"
  t_ma20 :: "real option"
  t_ma60 :: "real option"
  t_macd_dif :: "real option"
  t_macd_dea :: "real option"
  t_macd_hist :: "real option"
  t_rsi6 :: "real option"
  t_rsi12 :: "real option"
  t_rsi24 :: "real option"
  t_k :: "real option"
  t_d :: "real option"
  t_j :: "real option"
  t_bb_upper :: "real option"
  t_bb_middle :: "real option"
  t_bb_lower :: "real option"

record database =
  daily_data :: "daily_row list"
  technical_indicators :: "indicator_row list"

text \<open>
  A comparison in a \<^verbatim>\<open>WHERE\<close> clause keeps a row only when it is true; with \<^verbatim>\<open>NULL\<close> on
  either side it is unknown and the row is dropped.
\<close>

definition sql_lt :: "real option \<Rightarrow> real option \<Rightarrow> bool" where
  "sql_lt a b = (case a of None \<Rightarrow> False
                 | Some x \<Rightarrow> (case b of None \<Rightarrow> False | Some y \<Rightarrow> x < y))"

definition sql_gt :: "real option \<Rightarrow> real option \<Rightarrow> bool" where
  "sql_gt a b = sql_lt b a"

text \<open>\<^verbatim>\<open>AVG\<close> skips \<^verbatim>\<open>NULL\<close> and is \<^verbatim>\<open>NULL\<close> when nothing is left.\<close>

definition sql_avg :: "real option list \<Rightarrow> real option" where
  "sql_avg vs =
     (let xs = concat (map (\<lambda>v. case v of None \<Rightarrow> [] | Some x \<Rightarrow> [x]) vs)
      in if xs = [] then None else Some (sum_list xs / real (length xs)))"

text \<open>
  \<^verbatim>\<open>SELECT DISTINCT date FROM ... ORDER BY date DESC LIMIT 2\<close>: the two latest distinct dates,
  the latest first.
\<close>

definition latest_dates :: "string list \<Rightarrow> string list" where
  "latest_dates ds = take 2 (rev (sort (remdups ds)))"

text \<open>\<^verbatim>\<open>SELECT MAX(date) FROM ...\<close>, which is \<^verbatim>\<open>NULL\<close> on an empty table.\<close>

definition max_date :: "string list \<Rightarrow> string option" where
  "max_date ds = (case ds of [] \<Rightarrow> None | x # r \<Rightarrow> Some (fold max r x))"

text \<open>
  \<^verbatim>\<open>Database.execute\<close> answers with the rows of the query, or with \<^verbatim>\<open>None\<close> when the
  statement fails; the evaluators read \<^verbatim>\<open>None\<close> as no rows.
\<close>

definition stock_codes :: "string list option \<Rightarrow> string list" where
  "stock_codes result = (case result of None \<Rightarrow> [] | Some rows \<Rightarrow> rows)"

section \<open>The predicate evaluators (class \<^verbatim>\<open>StockFilter\<close>)\<close>

text \<open>
  The moving-average column \<^verbatim>\<open>ma{period}\<close> exists for the periods 5, 10, 20 and 60 only;
  for any other period the statement names an unknown column and fails. The price column
  is the default one, \<^verbatim>\<open>close\<close>.
\<close>

definition ma_column :: "int \<Rightarrow> (indicator_row \<Rightarrow> real option) option" where
  "ma_column period =
     (if period = 5 then Some t_ma5
      else if period = 10 then Some t_ma10
      else if period = 20 then Some t_ma20
      else if period = 60 then Some t_ma60
      else None)"

definition filter_by_ma :: "database \<Rightarrow> int \<Rightarrow> string \<Rightarrow> string list" where
  "filter_by_ma db period relation =
     (if relation = ''above'' \<or> relation = ''below'' then
        stock_codes
          (case ma_column period of
             None \<Rightarrow> None
           | Some ma \<Rightarrow>
               Some (remdups
                 [d_code d. d \<leftarrow> daily_data db, t \<leftarrow> technical_indicators db,
                    d_code d = t_code t \<and> d_date d = t_date t,
                    Some (d_date d) = max_date (map d_date (daily_data db)),
                    if relation = ''above'' then sql_gt (d_close d) (ma t)
                    else sql_lt (d_close d) (ma t)]))
      else if relation = ''cross_above'' \<or> relation = ''cross_below'' then
        (let dates = latest_dates (map d_date (daily_data db))
         in if length dates < 2 then []
            else
              (let latest_date = dates ! 0; prev_date = dates ! 1
               in stock_codes
                    (case ma_column period of
                       None \<Rightarrow> None
                     | Some ma \<Rightarrow>
                         Some (remdups
                           [d_code d1. d1 \<leftarrow> daily_data db, t1 \<leftarrow> technical_indicators db,
                              d_code d1 = t_code t1 \<and> d_date d1 = t_date t1,
                              d2 \<leftarrow> daily_data db,
                              d_code d1 = d_code d2 \<and> d_date d2 = prev_date,
                              t2 \<leftarrow> technical_indicators db,
                              d_code d2 = t_code t2 \<and> d_date d2 = t_date t2,
                              d_date d1 = latest_date,
                              if relation = ''cross_above''
                              then sql_lt (d_close d2) (ma t2) \<and> sql_gt (d_close d1) (ma t1)
                              else sql_gt (d_close d2) (ma t2) \<and> sql_lt (d_close d1) (ma t1)]))))
      else [])"

definition filter_by_macd :: "database \<Rightarrow> string \<Rightarrow> string list" where
  "filter_by_macd db condition =
     (let dates = latest_dates (map t_date (technical_indicators db))
      in if length dates < 2 then []
         else
           (let latest_date = dates ! 0; prev_date = dates ! 1; ti = technical_indicators db
            in if condition = ''golden_cross'' then
                 stock_codes (Some (remdups
                   [t_code t1. t1 \<leftarrow> ti, t2 \<leftarrow> ti, t_code t1 = t_code t2,
                      t_date t1 = latest_date \<and> t_date t2 = prev_date,
                      sql_lt (t_macd_dif t2) (t_macd_dea t2),
                      sql_gt (t_macd_dif t1) (t_macd_dea t1)]))
               else if condition = ''dead_cross'' then
                 stock_codes (Some (remdups
                   [t_code t1. t1 \<leftarrow> ti, t2 \<leftarrow> ti, t_code t1 = t_code t2,
                      t_date t1 = latest_date \<and> t_date t2 = prev_date,
                      sql_gt (t_macd_dif t2) (t_macd_dea t2),
                      sql_lt (t_macd_dif t1) (t_macd_dea t1)]))
               else if condition = ''positive'' then
                 stock_codes (Some (remdups
                   [t_code t. t \<leftarrow> ti, t_date t = latest_date,
                      sql_gt (t_macd_dif t) (Some 0) \<and> sql_gt (t_macd_hist t) (Some 0)]))
               else if condition = ''negative'' then
                 stock_codes (Some (remdups
                   [t_code t. t \<leftarrow> ti, t_date t = latest_date,
                      sql_lt (t_macd_dif t) (Some 0) \<and> sql_lt (t_macd_hist t) (Some 0)]))
               else []))"

definition filter_by_kdj :: "database \<Rightarrow> string \<Rightarrow> string list" where
  "filter_by_kdj db condition =
     (let dates = latest_dates (map t_date (technical_indicators db))
      in if length dates < 2 then []
         else
           (let latest_date = dates ! 0; prev_date = dates ! 1; ti = technical_indicators db
            in if condition = ''golden_cross'' then
                 stock_codes (Some (remdups
                   [t_code t1. t1 \<leftarrow> ti, t2 \<leftarrow> ti, t_code t1 = t_code t2,
                      t_date t1 = latest_date \<and> t_date t2 = prev_date,
                      sql_lt (t_k t2) (t_d t2),
                      sql_gt (t_k t1) (t_d t1)]))
               else if condition = ''dead_cross'' then
                 stock_codes (Some (remdups
                   [t_code t1. t1 \<leftarrow> ti, t2 \<leftarrow> ti, t_code t1 = t_code t2,
                      t_date t1 = latest_date \<and> t_date t2 = prev_date,
                      sql_gt (t_k t2) (t_d t2),
                      sql_lt (t_k t1) (t_d t1)]))
               else if condition = ''oversold'' then
                 stock_codes (Some (remdups
                   [t_code t. t \<leftarrow> ti, t_date t = latest_date,
                      sql_lt (t_k t) (Some 20) \<and> sql_lt (t_d t) (Some 20)]))
               else if condition = ''overbought'' then
                 stock_codes (Some (remdups
                   [t_code t. t \<leftarrow> ti, t_date t = latest_date,
                      sql_gt (t_k t) (Some 80) \<and> sql_gt (t_d t) (Some 80)]))
               else []))"

text \<open>
  The threshold of the volume filter is a Python number or \<^verbatim>\<open>None\<close>. It is bound to the
  statement as it is: an \<^verbatim>\<open>int\<close> as an SQL integer, a \<^verbatim>\<open>float\<close> as an SQL real. The
  quotient \<^verbatim>\<open>?/100\<close> of two SQL integers is the integer quotient, cut toward zero.
\<close>

datatype pynum = PyInt int | PyFloat real

definition num_value :: "pynum \<Rightarrow> real" where
  "num_value t = (case t of PyInt i \<Rightarrow> real_of_int i | PyFloat r \<Rightarrow> r)"

definition sql_div_100 :: "pynum \<Rightarrow> fval" where
  "sql_div_100 t =
     (case t of
        PyInt i \<Rightarrow> Fin (real_of_int (if 0 \<le> i then i div 100 else - ((- i) div 100)))
      | PyFloat r \<Rightarrow> ddiv (round_double r) (Fin 100))"

text \<open>\<^verbatim>\<open>int(threshold)\<close> cuts a float toward zero.\<close>

definition py_int :: "pynum \<Rightarrow> int" where
  "py_int t = (case t of PyInt i \<Rightarrow> i | PyFloat r \<Rightarrow> if 0 \<le> r then \<lfloor>r\<rfloor> else \<lceil>r\<rceil>)"

text \<open>
  The window of \<^verbatim>\<open>AVG(volume) OVER (PARTITION BY code ORDER BY date ROWS BETWEEN n
  PRECEDING AND CURRENT ROW)\<close> at a row: the row and the \<open>n\<close> rows of the same symbol just
  before it by date.
\<close>

definition volume_frame :: "daily_row list \<Rightarrow> nat \<Rightarrow> daily_row \<Rightarrow> daily_row list" where
  "volume_frame dd n r =
     (let before = sort_key d_date [x \<leftarrow> dd. d_code x = d_code r \<and> d_date x < d_date r]
      in drop (length before - n) before @ [r])"

definition avg_volume :: "daily_row list \<Rightarrow> nat \<Rightarrow> daily_row \<Rightarrow> real option" where
  "avg_volume dd n r = sql_avg (map d_volume (volume_frame dd n r))"

definition filter_by_volume :: "database \<Rightarrow> string \<Rightarrow> pynum option \<Rightarrow> string list" where
  "filter_by_volume db condition threshold =
     (let dates = latest_dates (map d_date (daily_data db))
      in if length dates < 2 then []
         else
           (let latest_date = dates ! 0; prev_date = dates ! 1; dd = daily_data db
            in if condition = ''increase'' \<or> condition = ''decrease'' then
                 (let threshold' = (case threshold of None \<Rightarrow> PyInt 20 | Some t \<Rightarrow> t)
                  in stock_codes (Some (remdups
                       [d_code d1. d1 \<leftarrow> dd, d2 \<leftarrow> dd, d_code d1 = d_code d2,
                          d_date d1 = latest_date \<and> d_date d2 = prev_date,
                          if condition = ''increase''
                          then fgt (sql_real (d_volume d1))
                                 (dmul (sql_real (d_volume d2))
                                    (dadd (Fin 1) (sql_div_100 threshold')))
                          else flt (sql_real (d_volume d1))
                                 (dmul (sql_real (d_volume d2))
                                    (dsub (Fin 1) (sql_div_100 threshold')))])))
               else if condition = ''above_ma'' \<or> condition = ''below_ma'' then
                 (let threshold' =
                        (case threshold of None \<Rightarrow> PyInt 5
                         | Some t \<Rightarrow> if num_value t \<le> 0 then PyInt 5 else t);
                      n = py_int threshold' - 1
                  in stock_codes
                       (if n < 0 then None
                        else Some (remdups
                          [d_code r. r \<leftarrow> dd, d_date r = latest_date,
                             if condition = ''above_ma''
                             then sql_gt (d_volume r) (avg_volume dd (nat n) r)
                             else sql_lt (d_volume r) (avg_volume dd (nat n) r)])))
               else []))"

text \<open>
  The band conditions join each indicator row with the bar of the same symbol and date;
  the squeeze compares the distance between the upper and the lower band on the two dates.
\<close>

definition band_rows ::
  "database \<Rightarrow> string \<Rightarrow> string \<Rightarrow>
     (indicator_row \<times> indicator_row \<times> daily_row \<times> daily_row) list" where
  "band_rows db latest_date prev_date =
     [(t1, t2, d1, d2).
        t1 \<leftarrow> technical_indicators db, t2 \<leftarrow> technical_indicators db, t_code t1 = t_code t2,
        d1 \<leftarrow> daily_data db, t_code t1 = d_code d1 \<and> t_date t1 = d_date d1,
        d2 \<leftarrow> daily_data db, t_code t2 = d_code d2 \<and> t_date t2 = d_date d2,
        t_date t1 = latest_date \<and> t_date t2 = prev_date]"

definition filter_by_bollinger_bands :: "database \<Rightarrow> string \<Rightarrow> string list" where
  "filter_by_bollinger_bands db condition =
     (let dates = latest_dates (map t_date (technical_indicators db))
      in if length dates < 2 then []
         else
           (let latest_date = dates ! 0; prev_date = dates ! 1; ti = technical_indicators db
            in if condition = ''upper_break'' then
                 stock_codes (Some (remdups
                   [t_code t1. (t1, t2, d1, d2) \<leftarrow> band_rows db latest_date prev_date,
                      sql_lt (d_close d2) (t_bb_upper t2),
                      sql_gt (d_close d1) (t_bb_upper t1)]))
               else if condition = ''lower_break'' then
                 stock_codes (Some (remdups
                   [t_code t1. (t1, t2, d1, d2) \<leftarrow> band_rows db latest_date prev_date,
                      sql_gt (d_close d2) (t_bb_lower t2),
                      sql_lt (d_close d1) (t_bb_lower t1)]))
               else if condition = ''middle_cross_above'' then
                 stock_codes (Some (remdups
                   [t_code t1. (t1, t2, d1, d2) \<leftarrow> band_rows db latest_date prev_date,
                      sql_lt (d_close d2) (t_bb_middle t2),
                      sql_gt (d_close d1) (t_bb_middle t1)]))
               else if condition = ''middle_cross_below'' then
                 stock_codes (Some (remdups
                   [t_code t1. (t1, t2, d1, d2) \<leftarrow> band_rows db latest_date prev_date,
                      sql_gt (d_close d2) (t_bb_middle t2),
                      sql_lt (d_close d1) (t_bb_middle t1)]))
               else if condition = ''squeeze'' then
                 stock_codes (Some (remdups
                   [t_code t1. t1 \<leftarrow> ti, t2 \<leftarrow> ti, t_code t1 = t_code t2,
                      t_date t1 = latest_date \<and> t_date t2 = prev_date,
                      flt (dsub (sql_real (t_bb_upper t1)) (sql_real (t_bb_lower t1)))
                        (dmul (dsub (sql_real (t_bb_upper t2)) (sql_real (t_bb_lower t2)))
                           (round_double (9 / 10)))]))
               else []))"

section \<open>The filter combinator\<close>

text \<open>
  \<^verbatim>\<open>combine_filters\<close> works on Python sets of symbols. A set is modelled as a list without
  repetitions; the order in which Python lists the members of a set is not specified, so
  only the membership of the result is meaningful when two or more lists are combined.
  Every value of \<^verbatim>\<open>logic\<close> other than \<^verbatim>\<open>'and'\<close> takes the union branch.
\<close>

definition py_set :: "string list \<Rightarrow> string list" where
  "py_set codes = remdups codes"

definition set_intersection :: "string list \<Rightarrow> string list \<Rightarrow> string list" where
  "set_intersection a b = filter (\<lambda>x. x \<in> set b) a"

definition set_union :: "string list \<Rightarrow> string list \<Rightarrow> string list" where
  "set_union a b = remdups (a @ b)"

definition combine_filters :: "string list list \<Rightarrow> string \<Rightarrow> string list" where
  "combine_filters filter_results logic =
     (case filter_results of
        [] \<Rightarrow> []
      | [only] \<Rightarrow> only
      | first # others \<Rightarrow>
          if logic = ''and''
          then fold (\<lambda>codes result. set_intersection result (py_set codes)) others (py_set first)
          else fold (\<lambda>codes result. set_union result (py_set codes)) filter_results [])"

section \<open>The reference recurrence of the exponential mean\<close>

text \<open>
  The recurrence as the specification words it: the first value seeds the mean, and each
  later value enters with weight \<open>\<alpha>\<close>.
\<close>

fun ema_ref :: "real \<Rightarrow> real list \<Rightarrow> nat \<Rightarrow> real" where
  "ema_ref \<alpha> close 0 = close ! 0"
| "ema_ref \<alpha> close (Suc i) = \<alpha> * close ! Suc i + (1 - \<alpha>) * ema_ref \<alpha> close i"

section \<open>Rows for concrete stores\<close>

text \<open>A row of each table with every numeric column \<^verbatim>\<open>NULL\<close>.\<close>

definition null_indicator_row :: "string \<Rightarrow> string \<Rightarrow> indicator_row" where
  "null_indicator_row c dt =
     \<lparr>t_code = c, t_date = dt, t_ma5 = None, t_ma10 = None, t_ma20 = None, t_ma60 = None,
      t_macd_dif = None, t_macd_dea = None, t_macd_hist = None, t_rsi6 = None, t_rsi12 = None,
      t_rsi24 = None, t_k = None, t_d = None, t_j = None, t_bb_upper = None,
      t_bb_middle = None, t_bb_lower = None\<rparr>"

definition null_daily_row :: "string \<Rightarrow> string \<Rightarrow> daily_row" where
  "null_daily_row c dt =
     \<lparr>d_code = c, d_date = dt, d_open = None, d_high = None, d_low = None, d_close = None,
      d_volume = None, d_amount = None, d_pct_change = None, d_turnover = None\<rparr>"

text \<open>
  Three small stores. In \<open>squeeze_store\<close> the distance between the bands of symbol A goes
  from 10 to 8 and that of symbol B from 10 to 9.5. In \<open>volume_store\<close> the volume of A rises
  by 30 percent, that of B by exactly 25 percent, and that of C falls by 30 percent.
  \<open>single_date_store\<close> holds one date only.
\<close>

definition squeeze_store :: database where
  "squeeze_store =
     \<lparr>daily_data = [],
      technical_indicators =
        [(null_indicator_row ''A'' ''2024-01-01'')\<lparr>t_bb_upper := Some 15, t_bb_lower := Some 5\<rparr>,
         (null_indicator_row ''A'' ''2024-01-02'')\<lparr>t_bb_upper := Some 14, t_bb_lower := Some 6\<rparr>,
         (null_indicator_row ''B'' ''2024-01-01'')\<lparr>t_bb_upper := Some 15, t_bb_lower := Some 5\<rparr>,
         (null_indicator_row ''B'' ''2024-01-02'')
           \<lparr>t_bb_upper := Some (59 / 4), t_bb_lower := Some (21 / 4)\<rparr>]\<rparr>"

definition volume_store :: database where
  "volume_store =
     \<lparr>daily_data =
        [(null_daily_row ''A'' ''2024-01-01'')\<lparr>d_volume := Some 100\<rparr>,
         (null_daily_row ''A'' ''2024-01-02'')\<lparr>d_volume := Some 130\<rparr>,
         (null_daily_row ''B'' ''2024-01-01'')\<lparr>d_volume := Some 100\<rparr>,
         (null_daily_row ''B'' ''2024-01-02'')\<lparr>d_volume := Some 125\<rparr>,
         (null_daily_row ''C'' ''2024-01-01'')\<lparr>d_volume := Some 100\<rparr>,
         (null_daily_row ''C'' ''2024-01-02'')\<lparr>d_volume := Some 70\<rparr>],
      technical_indicators = []\<rparr>"

definition single_date_store :: database where
  "single_date_store =
     \<lparr>daily_data =
        [(null_daily_row ''A'' ''2024-01-02'')\<lparr>d_close := Some 12, d_volume := Some 130\<rparr>],
      technical_indicators =
        [(null_indicator_row ''A'' ''2024-01-02'')
           \<lparr>t_ma20 := Some 11, t_macd_dif := Some 1, t_macd_dea := Some (1 / 2),
            t_macd_hist := Some 1, t_k := Some 10, t_d := Some 5, t_bb_upper := Some 11\<rparr>]\<rparr>"

section \<open>Facts about the series operations\<close>

lemma map_of_set_column: "map_of (set_column df c xs) = (map_of df)(c \<mapsto> xs)"
  by (simp add: set_column_def update_conv')



lemma length_window_at_w: "length (window_at w xs i) \<le> w"
  by (simp add: window_at_def)

lemma length_rolling [simp]: "length (rolling w f xs) = length xs"
  by (simp add: rolling_def)



lemma length_shift1 [simp]: "length (shift1 xs) = length xs"
  by (cases xs) (simp_all add: shift1_def)

lemma length_diff [simp]: "length (diff xs) = length xs"
  by (simp add: diff_def)

lemma length_rsi_up [simp]: "length (rsi_up d) = length d"
  by (simp add: rsi_up_def)

lemma length_rsi_down [simp]: "length (rsi_down d) = length d"
  by (simp add: rsi_down_def)


section \<open>The exponential mean on finite columns\<close>

lemma ema_ref_shift:
  "ema_ref \<alpha> ((\<alpha> * c + (1 - \<alpha>) * w) # cs) j = ema_ref \<alpha> (w # c # cs) (Suc j)"
  by (induction j) simp_all

lemma ewm_step_fin:
  "ewm_loop \<alpha> (Fin w) 1 k (Fin c # rest) =
     Fin (\<alpha> * c + (1 - \<alpha>) * w) # ewm_loop \<alpha> (Fin (\<alpha> * c + (1 - \<alpha>) * w)) 1 (Suc k) rest"
proof (cases "w = c")
  case True
  have "\<alpha> * c + (1 - \<alpha>) * c = c" by (simp add: algebra_simps)
  with True show ?thesis by (simp add: is_observation_def Let_def)
next
  case False
  have new_wt: "(if \<alpha> = 1 / 2 then 1 - 1 * (1 - \<alpha>) else \<alpha>) = \<alpha>" by simp
  have "fdiv (fadd (fmul (Fin (1 * (1 - \<alpha>))) (Fin w)) (fmul (Fin \<alpha>) (Fin c)))
          (Fin (1 * (1 - \<alpha>) + \<alpha>)) = Fin (\<alpha> * c + (1 - \<alpha>) * w)"
    by (simp add: algebra_simps)
  with False show ?thesis
    by (simp only: ewm_loop.simps Let_def new_wt) (simp add: is_observation_def)
qed

lemma prep_values_fin: "prep_values (map Fin cs) = map Fin cs"
  by (simp add: prep_values_def)

lemma ewm_loop_fin:
  "ewm_loop \<alpha> (Fin w) 1 k (map Fin cs) =
     map (\<lambda>i. Fin (ema_ref \<alpha> (w # cs) (Suc i))) [0..<length cs]"
proof (induction cs arbitrary: w k)
  case Nil
  show ?case by simp
next
  case (Cons c cs)
  let ?w = "\<alpha> * c + (1 - \<alpha>) * w"
  have "ewm_loop \<alpha> (Fin w) 1 k (map Fin (c # cs)) = Fin ?w # ewm_loop \<alpha> (Fin ?w) 1 (Suc k) (map Fin cs)"
    by (simp only: list.map ewm_step_fin)
  also have "\<dots> = Fin ?w # map (\<lambda>i. Fin (ema_ref \<alpha> (?w # cs) (Suc i))) [0..<length cs]"
    by (simp only: Cons.IH)
  also have "\<dots> = Fin ?w # map (\<lambda>i. Fin (ema_ref \<alpha> (w # c # cs) (Suc (Suc i)))) [0..<length cs]"
    by (simp only: ema_ref_shift)
  also have "\<dots> = map (\<lambda>i. Fin (ema_ref \<alpha> (w # c # cs) (Suc i))) [0..<length (c # cs)]"
    by (simp add: upt_rec [of 0] map_Suc_upt [symmetric] del: upt_Suc)
  finally show ?case .
qed

lemma ewm_mean_fin:
  "ewm_mean \<alpha> (map Fin cs) = map (\<lambda>i. Fin (ema_ref \<alpha> cs i)) [0..<length cs]"
proof (cases cs)
  case Nil
  then show ?thesis by (simp add: ewm_mean_def prep_values_def)
next
  case (Cons c rest)
  have pv: "prep_values (map Fin (c # rest)) = Fin c # map Fin rest"
    using prep_values_fin [of "c # rest"] by simp
  have "ewm_mean \<alpha> (map Fin (c # rest)) = Fin c # ewm_loop \<alpha> (Fin c) 1 1 (map Fin rest)"
    by (simp only: ewm_mean_def pv list.case Let_def) (simp add: is_observation_def)
  also have "\<dots> = Fin (ema_ref \<alpha> (c # rest) 0) # map (\<lambda>i. Fin (ema_ref \<alpha> (c # rest) (Suc i))) [0..<length rest]"
    by (simp only: ewm_loop_fin) simp
  also have "\<dots> = map (\<lambda>i. Fin (ema_ref \<alpha> (c # rest) i)) [0..<length (c # rest)]"
    by (simp add: upt_rec [of 0] map_Suc_upt [symmetric] del: upt_Suc)
  finally show ?thesis using Cons by simp
qed

text \<open>
  An infinite entry counts as a missing one. With the span 3 the weight of the entry after
  the gap is \<open>1 - 1/4\<close>; with the span 5 it is the smoothing factor \<open>1/3\<close> against the aged
  weight \<open>4/9\<close>.
\<close>

lemma ewm_infinite_entry_examples:
  "ewm_span_mean 3 [Fin 1, PInf, Fin 4] = Inr [Fin 1, Fin 1, Fin (13 / 4)]
   \<and> ewm_span_mean 5 [Fin 1, PInf, Fin 4] = Inr [Fin 1, Fin 1, Fin (16 / 7)]"
  by (simp add: ewm_span_mean_def ewm_mean_def prep_values_def is_observation_def Let_def)

section \<open>Column names\<close>

lemma lt10_cases: "(d::nat) < 10 \<Longrightarrow> d \<in> {0,1,2,3,4,5,6,7,8,9}"
  by auto

lemma digit_char_inj: "d < 10 \<Longrightarrow> e < 10 \<Longrightarrow> digit_char d = digit_char e \<Longrightarrow> d = e"
  by (drule lt10_cases, drule lt10_cases) (auto simp: digit_char_def)

lemma digit_char_not_minus: "d < 10 \<Longrightarrow> digit_char d \<noteq> CHR ''-''"
  by (drule lt10_cases) (auto simp: digit_char_def)

lemma string_of_nat_nonempty: "string_of_nat n \<noteq> []"
  by (subst string_of_nat.simps) simp

lemma string_of_nat_inj: "string_of_nat n = string_of_nat m \<Longrightarrow> n = m"
proof (induction n arbitrary: m rule: string_of_nat.induct)
  case (1 n)
  show ?case
  proof (cases "n < 10")
    case n: True
    show ?thesis
    proof (cases "m < 10")
      case True
      with n "1.prems" show ?thesis
        by (simp add: string_of_nat.simps [of n] string_of_nat.simps [of m] digit_char_inj)
    next
      case False
      with n "1.prems" string_of_nat_nonempty [of "m div 10"] show ?thesis
        by (simp add: string_of_nat.simps [of n] string_of_nat.simps [of m])
    qed
  next
    case n: False
    show ?thesis
    proof (cases "m < 10")
      case True
      with n "1.prems" string_of_nat_nonempty [of "n div 10"] show ?thesis
        by (simp add: string_of_nat.simps [of n] string_of_nat.simps [of m])
    next
      case False
      with n "1.prems" have eq: "string_of_nat (n div 10) = string_of_nat (m div 10)"
        and dg: "digit_char (n mod 10) = digit_char (m mod 10)"
        by (simp_all add: string_of_nat.simps [of n] string_of_nat.simps [of m])
      from "1.IH" [OF n eq] have "n div 10 = m div 10" .
      moreover from dg have "n mod 10 = m mod 10"
        by (intro digit_char_inj) simp_all
      ultimately show ?thesis by (metis div_mult_mod_eq)
    qed
  qed
qed

lemma string_of_nat_hd: "hd (string_of_nat n) \<noteq> CHR ''-''"
proof (induction n rule: string_of_nat.induct)
  case (1 n)
  show ?case
  proof (cases "n < 10")
    case True
    then show ?thesis by (simp add: string_of_nat.simps [of n] digit_char_not_minus)
  next
    case False
    with "1.IH" string_of_nat_nonempty [of "n div 10"] show ?thesis
      by (simp add: string_of_nat.simps [of n])
  qed
qed

lemma str_int_inj: "str_int a = str_int b \<Longrightarrow> a = b"
proof -
  assume eq: "str_int a = str_int b"
  have neg: "CHR ''-'' # s \<noteq> string_of_nat k" for s k
    using string_of_nat_hd [of k] by (metis list.sel(1))
  show ?thesis
  proof (cases "a < 0"; cases "b < 0")
    assume "a < 0" "b < 0"
    with eq have "nat (- a) = nat (- b)" by (simp add: str_int_def string_of_nat_inj)
    with \<open>a < 0\<close> \<open>b < 0\<close> show ?thesis by simp
  next
    assume "a < 0" "\<not> b < 0"
    with eq neg show ?thesis by (simp add: str_int_def)
  next
    assume "\<not> a < 0" "b < 0"
    with eq neg [of "string_of_nat (nat (- b))" "nat a"] show ?thesis by (simp add: str_int_def)
  next
    assume "\<not> a < 0" "\<not> b < 0"
    with eq have "nat a = nat b" by (simp add: str_int_def string_of_nat_inj)
    with \<open>\<not> a < 0\<close> \<open>\<not> b < 0\<close> show ?thesis by simp
  qed
qed

lemma str_int_eq_iff: "str_int a = str_int b \<longleftrightarrow> a = b"
  by (auto dest: str_int_inj)


lemma calculate_ema_columns:
  assumes "\<forall>p\<in>set periods. 1 \<le> p" and "map_of df column = Some xs"
    and "\<forall>p\<in>set periods. ''EMA'' @ str_int p \<noteq> column"
  shows "\<exists>df'. calculate_ema df column periods = Inr df' \<and> map_of df' column = Some xs \<and>
           (\<forall>n. map_of df' (''EMA'' @ str_int n) =
              (if n \<in> set periods then Some (ewm_mean (2 / (real_of_int n + 1)) xs)
               else map_of df (''EMA'' @ str_int n)))"
  using assms
proof (induction periods arbitrary: df)
  case Nil
  then show ?case by simp
next
  case (Cons p ps)
  let ?ys = "ewm_mean (2 / (real_of_int p + 1)) xs"
  let ?df1 = "set_column df (''EMA'' @ str_int p) ?ys"
  from Cons.prems have p: "\<not> p < 1" and ne: "''EMA'' @ str_int p \<noteq> column" by auto
  from Cons.prems(2) ne have col1: "map_of ?df1 column = Some xs"
    by (simp add: map_of_set_column)
  from Cons.prems have "\<forall>q\<in>set ps. 1 \<le> q" "\<forall>q\<in>set ps. ''EMA'' @ str_int q \<noteq> column"
    by simp_all
  from Cons.IH [OF this(1) col1 this(2)] obtain df' where
    run: "calculate_ema ?df1 column ps = Inr df'" and col: "map_of df' column = Some xs" and
    cols: "\<And>n. map_of df' (''EMA'' @ str_int n) =
              (if n \<in> set ps then Some (ewm_mean (2 / (real_of_int n + 1)) xs)
               else map_of ?df1 (''EMA'' @ str_int n))"
    by blast
  have "calculate_ema df column (p # ps) = Inr df'"
    using Cons.prems(2) p run by (simp add: get_column_def ewm_span_mean_def)
  moreover have "map_of df' (''EMA'' @ str_int n) =
              (if n \<in> set (p # ps) then Some (ewm_mean (2 / (real_of_int n + 1)) xs)
               else map_of df (''EMA'' @ str_int n))" for n
    using cols [of n] by (auto simp: map_of_set_column str_int_eq_iff)
  ultimately show ?case using col by blast
qed

lemma rsi_loop_columns:
  assumes "\<forall>p\<in>set periods. 0 \<le> p"
  shows "\<exists>df'. rsi_loop df delta periods = Inr df' \<and>
           (\<forall>n. map_of df' (''RSI'' @ str_int n) =
              (if n \<in> set periods
               then Some (map (\<lambda>(u, d). rsi_value u d)
                      (zip (rolling (nat n) (window_mean (nat n)) (rsi_up delta))
                           (rolling (nat n) (window_mean (nat n)) (rsi_down delta))))
               else map_of df (''RSI'' @ str_int n)))"
  using assms
proof (induction periods arbitrary: df)
  case Nil
  then show ?case by simp
next
  case (Cons p ps)
  let ?ys = "map (\<lambda>(u, d). rsi_value u d)
                      (zip (rolling (nat p) (window_mean (nat p)) (rsi_up delta))
                           (rolling (nat p) (window_mean (nat p)) (rsi_down delta)))"
  let ?df1 = "set_column df (''RSI'' @ str_int p) ?ys"
  from Cons.prems have p: "\<not> p < 0" by auto
  from Cons.prems have "\<forall>q\<in>set ps. 0 \<le> q" by simp
  from Cons.IH [OF this] obtain df' where
    run: "rsi_loop ?df1 delta ps = Inr df'" and
    cols: "\<And>n. map_of df' (''RSI'' @ str_int n) =
              (if n \<in> set ps
               then Some (map (\<lambda>(u, d). rsi_value u d)
                      (zip (rolling (nat n) (window_mean (nat n)) (rsi_up delta))
                           (rolling (nat n) (window_mean (nat n)) (rsi_down delta))))
               else map_of ?df1 (''RSI'' @ str_int n))"
    by blast
  have "rsi_loop df delta (p # ps) = Inr df'"
    using p run by (simp add: rsi_series_def rolling_mean_def)
  moreover have "map_of df' (''RSI'' @ str_int n) =
              (if n \<in> set (p # ps)
               then Some (map (\<lambda>(u, d). rsi_value u d)
                      (zip (rolling (nat n) (window_mean (nat n)) (rsi_up delta))
                           (rolling (nat n) (window_mean (nat n)) (rsi_down delta))))
               else map_of df (''RSI'' @ str_int n))" for n
    using cols [of n] by (auto simp: map_of_set_column str_int_eq_iff)
  ultimately show ?case by blast
qed

section \<open>The relative strength index on rising prices\<close>

lemma fadd_NaN_right [simp]: "fadd a NaN = NaN"
  by (cases a) simp_all

lemma fmul_NaN_right [simp]: "fmul a NaN = NaN"
  by (cases a) simp_all

lemma fdiv_NaN_right [simp]: "fdiv a NaN = NaN"
  by (cases a) simp_all

lemma sum_list_map_pos:
  fixes f :: "nat \<Rightarrow> real"
  assumes "js \<noteq> []" and "\<And>j. j \<in> set js \<Longrightarrow> 0 < f j"
  shows "0 < sum_list (map f js)"
  using assms
proof (induction js)
  case Nil
  then show ?case by simp
next
  case (Cons j js)
  show ?case
  proof (cases "js = []")
    case True
    with Cons.prems show ?thesis by simp
  next
    case False
    with Cons have "0 < sum_list (map f js)" by simp
    moreover from Cons.prems have "0 < f j" by simp
    ultimately show ?thesis by simp
  qed
qed

lemma shift1_nth: "i < length xs \<Longrightarrow> shift1 xs ! i = (if i = 0 then NaN else xs ! (i - 1))"
  by (cases xs) (auto simp: shift1_def nth_Cons nth_butlast split: nat.splits)

lemma diff_nth:
  "i < length xs \<Longrightarrow> diff xs ! i = (if i = 0 then NaN else fsub (xs ! i) (xs ! (i - 1)))"
  by (simp add: diff_def shift1_nth fsub_def)

lemma window_at_eq:
  assumes "i < length xs"
  shows "window_at w xs i = map ((!) xs) [Suc i - w..<Suc i]"
proof -
  from assms have "take (Suc i) xs = map ((!) xs) [0..<Suc i]"
    by (metis Suc_leI map_nth take_map take_upt add_0)
  then show ?thesis
    by (simp add: window_at_def drop_map del: upt_Suc)
qed

lemma observations_map_Fin: "observations (map (\<lambda>j. Fin (f j)) js) = map f js"
  by (induction js) simp_all

lemma window_mean_fin:
  assumes "i < length xs" and "w \<le> Suc i" and "0 < w"
    and "\<And>j. Suc i - w \<le> j \<Longrightarrow> j \<le> i \<Longrightarrow> xs ! j = Fin (f j)"
  shows "window_mean w (window_at w xs i) = Fin (sum_list (map f [Suc i - w..<Suc i]) / real w)"
proof -
  have "map ((!) xs) [Suc i - w..<Suc i] = map (\<lambda>j. Fin (f j)) [Suc i - w..<Suc i]"
    using assms(4) by (intro map_cong) auto
  then have "observations (window_at w xs i) = map f [Suc i - w..<Suc i]"
    using assms(1) by (simp only: window_at_eq observations_map_Fin)
  moreover have "length [Suc i - w..<Suc i] = w" using assms(2) by (simp del: upt_Suc)
  ultimately have "length (observations (window_at w xs i)) = w"
    and "observations (window_at w xs i) = map f [Suc i - w..<Suc i]" by simp_all
  then show ?thesis using assms(3) by (simp only: window_mean_def Let_def) simp
qed

lemma rsi_value_rising: "0 < u \<Longrightarrow> rsi_value (Fin u) (Fin 0) = Fin 100"
  by (simp add: rsi_value_def fsub_def)

lemma rsi_value_flat: "rsi_value (Fin 0) (Fin 0) = NaN"
  by (simp add: rsi_value_def fsub_def)

lemma rising_deltas:
  assumes "sorted_wrt (<) cs" and "0 < j" and "j < length cs"
  shows "rsi_up (diff (map Fin cs)) ! j = Fin (cs ! j - cs ! (j - 1))"
    and "rsi_down (diff (map Fin cs)) ! j = Fin 0"
    and "0 < cs ! j - cs ! (j - 1)"
proof -
  from assms have lt: "cs ! (j - 1) < cs ! j"
    by (simp add: sorted_wrt_iff_nth_less)
  then show "0 < cs ! j - cs ! (j - 1)" by simp
  from assms(2,3) have d: "diff (map Fin cs) ! j = Fin (cs ! j - cs ! (j - 1))"
    by (simp add: diff_nth fsub_def)
  from assms(3) d lt show "rsi_up (diff (map Fin cs)) ! j = Fin (cs ! j - cs ! (j - 1))"
    by (simp add: rsi_up_def)
  from assms(3) d lt show "rsi_down (diff (map Fin cs)) ! j = Fin 0"
    by (simp add: rsi_down_def)
qed

lemma rising_rsi:
  assumes "sorted_wrt (<) cs" and "0 < w" and "w \<le> i" and "i < length cs"
  shows "rolling w (window_mean w) (rsi_down (diff (map Fin cs))) ! i = Fin 0"
    and "\<exists>u>0. rolling w (window_mean w) (rsi_up (diff (map Fin cs))) ! i = Fin u"
proof -
  let ?js = "[Suc i - w..<Suc i]"
  have pos: "0 < j" "j < length cs" if "Suc i - w \<le> j" "j \<le> i" for j
    using that assms by auto
  have "window_mean w (window_at w (rsi_down (diff (map Fin cs))) i)
          = Fin (sum_list (map (\<lambda>j. 0) ?js) / real w)"
    using assms by (intro window_mean_fin) (simp_all add: rising_deltas(2) pos)
  then show "rolling w (window_mean w) (rsi_down (diff (map Fin cs))) ! i = Fin 0"
    using assms(4) by (simp add: rolling_def del: upt_Suc)
  have up: "window_mean w (window_at w (rsi_up (diff (map Fin cs))) i)
          = Fin (sum_list (map (\<lambda>j. cs ! j - cs ! (j - 1)) ?js) / real w)"
    using assms by (intro window_mean_fin) (simp_all add: rising_deltas(1) pos)
  have "?js \<noteq> []" using assms by simp
  moreover have "\<forall>j\<in>set ?js. 0 < cs ! j - cs ! (j - 1)"
    using assms(1) pos rising_deltas(3) by auto
  ultimately have "0 < sum_list (map (\<lambda>j. cs ! j - cs ! (j - 1)) ?js)"
    by (intro sum_list_map_pos) auto
  then have "0 < sum_list (map (\<lambda>j. cs ! j - cs ! (j - 1)) ?js) / real w"
    using assms(2) by simp
  with up assms(4) show "\<exists>u>0. rolling w (window_mean w) (rsi_up (diff (map Fin cs))) ! i = Fin u"
    by (simp add: rolling_def del: upt_Suc)
qed

section \<open>Facts about the store queries\<close>

lemma length_latest_dates: "length (latest_dates ds) = min 2 (card (set ds))"
  by (simp add: latest_dates_def length_remdups_card_conv min.commute)

lemma latest_dates_few: "card (set ds) < 2 \<Longrightarrow> length (latest_dates ds) < 2"
  by (simp add: length_latest_dates)

lemma latest_dates_pair:
  assumes "latest \<in> set ds" and "prev \<in> set ds" and "prev < latest"
    and "\<forall>x\<in>set ds. x = latest \<or> x \<le> prev"
  shows "latest_dates ds = [latest, prev]"
proof -
  let ?r = "rev (sort (remdups ds))"
  have set_r: "set ?r = set ds" by simp
  have dist: "distinct ?r" by simp
  have srt: "sorted (rev ?r)" by simp
  have "card (set ds) \<ge> 2"
  proof -
    have "{latest, prev} \<subseteq> set ds" using assms by simp
    then have "card {latest, prev} \<le> card (set ds)" by (intro card_mono) simp_all
    moreover have "card {latest, prev} = 2" using assms(3) by simp
    ultimately show ?thesis by simp
  qed
  then have "length ?r \<ge> 2" by (simp add: length_remdups_card_conv)
  then obtain a b rest where r: "?r = a # b # rest"
    by (cases ?r; cases "tl ?r") auto
  from srt r have rest_le: "\<forall>x\<in>set rest. x \<le> b" and ba: "b \<le> a" and rest_a: "\<forall>x\<in>set rest. x \<le> a"
    by (auto simp: sorted_append)
  from dist r have "a \<noteq> b" "a \<notin> set rest" "b \<notin> set rest" by auto
  from set_r r have mem: "set ds = insert a (insert b (set rest))" by (metis list.simps(15))
  have "a = latest"
  proof -
    from mem assms(1) have "latest \<le> a" using ba rest_a by auto
    moreover from mem assms(4) have "a = latest \<or> a \<le> prev" by auto
    ultimately show ?thesis using assms(3) by auto
  qed
  have "b = prev"
  proof -
    from mem assms(4) have "b = latest \<or> b \<le> prev" by auto
    with \<open>a = latest\<close> \<open>a \<noteq> b\<close> have "b \<le> prev" by auto
    moreover from mem assms(2,3) \<open>a = latest\<close> have "prev = b \<or> prev \<in> set rest" by auto
    with rest_le have "prev \<le> b" by auto
    ultimately show ?thesis by simp
  qed
  from r \<open>a = latest\<close> \<open>b = prev\<close> show ?thesis by (simp add: latest_dates_def)
qed

lemma set_fold_intersection:
  "set (fold (\<lambda>codes result. set_intersection result (py_set codes)) others acc)
     = set acc \<inter> (\<Inter>S\<in>set others. set S)"
  by (induction others arbitrary: acc) (auto simp: set_intersection_def py_set_def)

lemma set_fold_union:
  "set (fold (\<lambda>codes result. set_union result (py_set codes)) xs acc)
     = set acc \<union> (\<Union>S\<in>set xs. set S)"
  by (induction xs arbitrary: acc) (auto simp: set_union_def py_set_def)

lemma set_py_set: "set (py_set codes) = set codes"
  by (simp add: py_set_def)

lemma set_combine_filters:
  "set (combine_filters xs logic) =
     (if xs = [] then {} else if logic = ''and'' then (\<Inter>S\<in>set xs. set S)
      else (\<Union>S\<in>set xs. set S))"
proof (cases xs)
  case Nil
  then show ?thesis by (simp add: combine_filters_def)
next
  case (Cons a rest)
  show ?thesis
  proof (cases rest)
    case Nil
    with Cons show ?thesis by (simp add: combine_filters_def)
  next
    case (Cons b rest')
    show ?thesis
    proof (cases "logic = ''and''")
      case True
      then have "combine_filters (a # b # rest') logic =
          fold (\<lambda>codes result. set_intersection result (py_set codes)) (b # rest') (py_set a)"
        by (simp only: combine_filters_def list.case refl if_True)
      then have "set (combine_filters (a # b # rest') logic)
          = set (py_set a) \<inter> (\<Inter>S\<in>set (b # rest'). set S)"
        by (simp only: set_fold_intersection)
      with True \<open>xs = a # rest\<close> Cons show ?thesis by (simp add: set_py_set)
    next
      case False
      then have "combine_filters (a # b # rest') logic =
          fold (\<lambda>codes result. set_union result (py_set codes)) (a # b # rest') []"
        by (simp only: combine_filters_def list.case if_False)
      then have "set (combine_filters (a # b # rest') logic)
          = set [] \<union> (\<Union>S\<in>set (a # b # rest'). set S)"
        by (simp only: set_fold_union)
      with False \<open>xs = a # rest\<close> Cons show ?thesis by simp
    qed
  qed
qed

lemma sql_lt_Some: "sql_lt a b \<longleftrightarrow> (\<exists>x y. a = Some x \<and> b = Some y \<and> x < y)"
  by (auto simp: sql_lt_def split: option.splits)

lemma in_pair_query:
  "c \<in> set (remdups [f t1. t1 \<leftarrow> xs, t2 \<leftarrow> ys, P t1 t2, Q t1 t2, R t1 t2]) \<longleftrightarrow>
     (\<exists>t1\<in>set xs. \<exists>t2\<in>set ys. c = f t1 \<and> P t1 t2 \<and> Q t1 t2 \<and> R t1 t2)"
  by auto

lemma pair_reorder:
  "(\<exists>d1\<in>A. \<exists>d2\<in>B. c = f d1 \<and> f d1 = g d2 \<and> (p d1 = l \<and> q d2 = r) \<and> W d1 d2) \<longleftrightarrow>
   (\<exists>d1\<in>A. \<exists>d2\<in>B. f d1 = c \<and> p d1 = l \<and> g d2 = c \<and> q d2 = r \<and> W d1 d2)"
proof -
  have "(c = f d1 \<and> f d1 = g d2 \<and> (p d1 = l \<and> q d2 = r) \<and> W d1 d2) \<longleftrightarrow>
        (f d1 = c \<and> p d1 = l \<and> g d2 = c \<and> q d2 = r \<and> W d1 d2)" for d1 d2
    by auto
  then show ?thesis by (simp only:)
qed

lemma flt_NaN [simp]: "flt a NaN = False" "flt NaN b = False"
  by (cases a; simp) simp

lemma rounded_NaN [simp]: "rounded NaN = NaN"
  by (simp add: rounded_def)

lemma double_NaN [simp]:
  "dsub NaN b = NaN" "dsub a NaN = NaN" "dmul NaN b = NaN" "dmul a NaN = NaN"
  by (cases a; simp add: dsub_def dmul_def fsub_def)+

lemma squeeze_rows:
  assumes "latest_dates (map t_date (technical_indicators db)) = [latest, prev]"
  shows "c \<in> set (filter_by_bollinger_bands db ''squeeze'') \<longleftrightarrow>
           (\<exists>t1\<in>set (technical_indicators db). \<exists>t2\<in>set (technical_indicators db).
              t_code t1 = c \<and> t_date t1 = latest \<and> t_code t2 = c \<and> t_date t2 = prev \<and>
              flt (dsub (sql_real (t_bb_upper t1)) (sql_real (t_bb_lower t1)))
                (dmul (dsub (sql_real (t_bb_upper t2)) (sql_real (t_bb_lower t2)))
                   (round_double (9 / 10))))"
proof -
  have "filter_by_bollinger_bands db ''squeeze'' =
      remdups [t_code t1. t1 \<leftarrow> technical_indicators db, t2 \<leftarrow> technical_indicators db,
                      t_code t1 = t_code t2,
                      t_date t1 = latest \<and> t_date t2 = prev,
                      flt (dsub (sql_real (t_bb_upper t1)) (sql_real (t_bb_lower t1)))
                        (dmul (dsub (sql_real (t_bb_upper t2)) (sql_real (t_bb_lower t2)))
                           (round_double (9 / 10)))]"
    using assms by (simp add: filter_by_bollinger_bands_def Let_def stock_codes_def)
  then show ?thesis
    by (simp only: in_pair_query pair_reorder)
qed

lemma squeeze_cond:
  "flt (dsub (sql_real a) (sql_real b)) (dmul (dsub (sql_real a') (sql_real b')) r) \<longleftrightarrow>
     (\<exists>u1 l1 u2 l2. a = Some u1 \<and> b = Some l1 \<and> a' = Some u2 \<and> b' = Some l2 \<and>
        flt (dsub (round_double u1) (round_double l1))
          (dmul (dsub (round_double u2) (round_double l2)) r))"
  by (cases a; cases b; cases a'; cases b') (simp_all add: sql_real_def)

lemma volume_cond:
  "fgt (sql_real a) (dmul (sql_real b) r) \<longleftrightarrow>
     (\<exists>v1 v2. a = Some v1 \<and> b = Some v2 \<and> fgt (round_double v1) (dmul (round_double v2) r))"
  "flt (sql_real a) (dmul (sql_real b) r) \<longleftrightarrow>
     (\<exists>v1 v2. a = Some v1 \<and> b = Some v2 \<and> flt (round_double v1) (dmul (round_double v2) r))"
  by (cases a; cases b; simp add: sql_real_def fgt_def)+

section \<open>The claims about the indicator engine\<close>

text \<open>
  Claim C1, as the specification has it: a frame that lacks one of the required columns
  makes \<^verbatim>\<open>calculate_all_indicators\<close> fail with a missing-column error. The code does not
  fail: for the frame below, which has no \<^verbatim>\<open>volume\<close> column, it returns the frame itself.
\<close>

theorem missing_column_counterexample:
  "map_of [(''open'', [Fin 1]), (''high'', [Fin 2]), (''low'', [Fin 1]), (''close'', [Fin 2])]
     ''volume'' = None
   \<and> calculate_all_indicators
       [(''open'', [Fin 1]), (''high'', [Fin 2]), (''low'', [Fin 1]), (''close'', [Fin 2])]
     = Inr [(''open'', [Fin 1]), (''high'', [Fin 2]), (''low'', [Fin 1]), (''close'', [Fin 2])]"
  by (simp add: calculate_all_indicators_def required_columns_def has_column_def)

text \<open>
  Claim C1, amended: when one of the columns \<^verbatim>\<open>open\<close>, \<^verbatim>\<open>high\<close>, \<^verbatim>\<open>low\<close>, \<^verbatim>\<open>close\<close>,
  \<^verbatim>\<open>volume\<close> is absent from the frame, \<^verbatim>\<open>calculate_all_indicators\<close> raises nothing and
  returns the input frame unchanged, with no indicator column added.
\<close>

theorem missing_column_returns_input:
  assumes "col \<in> {''open'', ''high'', ''low'', ''close'', ''volume''}"
    and "map_of df col = None"
  shows "calculate_all_indicators df = Inr df"
proof -
  from assms have "list_ex (\<lambda>c. \<not> has_column df c) required_columns"
    by (auto simp: list_ex_iff required_columns_def has_column_def)
  then show ?thesis by (simp add: calculate_all_indicators_def)
qed

text \<open>The amended claim C1 on a frame without a \<^verbatim>\<open>close\<close> column.\<close>

theorem missing_column_returns_input_witness:
  "''close'' \<in> {''open'', ''high'', ''low'', ''close'', ''volume''}
   \<and> map_of [(''open'', [Fin 3, Fin 4]), (''volume'', [Fin 100, Fin 90])] ''close'' = None
   \<and> calculate_all_indicators [(''open'', [Fin 3, Fin 4]), (''volume'', [Fin 100, Fin 90])]
       = Inr [(''open'', [Fin 3, Fin 4]), (''volume'', [Fin 100, Fin 90])]"
proof -
  have h1: "''close'' \<in> {''open'', ''high'', ''low'', ''close'', ''volume''}" by simp
  have h2: "map_of [(''open'', [Fin 3, Fin 4]), (''volume'', [Fin 100, Fin 90])] ''close'' = None"
    by simp
  show ?thesis using h1 h2 missing_column_returns_input [OF h1 h2] by simp
qed

text \<open>
  Claim C7: for every sequence of finite close prices and every period \<open>n\<close> among the
  periods asked for (each at least 1, as the library demands of a span), the column
  \<^verbatim>\<open>EMA{n}\<close> written by \<^verbatim>\<open>calculate_ema\<close> equals the reference recurrence at every position:
  \<open>ema[0] = close[0]\<close> and \<open>ema[i] = \<alpha> * close[i] + (1 - \<alpha>) * ema[i - 1]\<close> with
  \<open>\<alpha> = 2 / (n + 1)\<close>.
\<close>

theorem calculate_ema_recurrence:
  assumes "map_of df column = Some (map Fin close)"
    and "n \<in> set periods"
    and "\<forall>p\<in>set periods. 1 \<le> p"
    and "\<forall>p\<in>set periods. ''EMA'' @ str_int p \<noteq> column"
  shows "\<exists>df'. calculate_ema df column periods = Inr df' \<and>
           map_of df' (''EMA'' @ str_int n) =
             Some (map (\<lambda>i. Fin (ema_ref (2 / (real_of_int n + 1)) close i)) [0..<length close])"
proof -
  from calculate_ema_columns [OF assms(3) assms(1) assms(4)] obtain df' where
    "calculate_ema df column periods = Inr df'" and
    "\<And>m. map_of df' (''EMA'' @ str_int m) =
       (if m \<in> set periods then Some (ewm_mean (2 / (real_of_int m + 1)) (map Fin close))
        else map_of df (''EMA'' @ str_int m))"
    by blast
  with assms(2) show ?thesis by (simp add: ewm_mean_fin)
qed

text \<open>Claim C7 on the closes 10, 11, 12 with the periods 5 and 10, read at period 5.\<close>

theorem calculate_ema_recurrence_witness:
  "map_of [(''close'', [Fin 10, Fin 11, Fin 12])] ''close'' = Some (map Fin [10, 11, 12])
   \<and> (5::int) \<in> set [5, 10]
   \<and> list_all (\<lambda>p. 1 \<le> p) [5, 10::int]
   \<and> list_all (\<lambda>p. ''EMA'' @ str_int p \<noteq> ''close'') [5, 10]
   \<and> (\<exists>df'. calculate_ema [(''close'', [Fin 10, Fin 11, Fin 12])] ''close'' [5, 10] = Inr df' \<and>
          map_of df' ''EMA5'' = Some [Fin 10, Fin (31 / 3), Fin (98 / 9)])"
proof -
  have h1: "map_of [(''close'', [Fin 10, Fin 11, Fin 12])] ''close'' = Some (map Fin [10, 11, 12])"
    by simp
  have h2: "(5::int) \<in> set [5, 10]" by simp
  have h3: "\<forall>p\<in>set [5, 10::int]. 1 \<le> p" by simp
  have h4: "\<forall>p\<in>set [5, 10::int]. ''EMA'' @ str_int p \<noteq> ''close''" by simp
  have name: "''EMA'' @ str_int 5 = ''EMA5''"
    by (simp add: str_int_def string_of_nat.simps digit_char_def)
  have vals: "map (\<lambda>i. Fin (ema_ref (2 / (real_of_int 5 + 1)) [10, 11, 12] i)) [0..<length [10, 11, 12 :: real]]
      = [Fin 10, Fin (31 / 3), Fin (98 / 9)]"
    by (simp add: upt_rec numeral_eq_Suc)
  from calculate_ema_recurrence [OF h1 h2 h3 h4]
  have "\<exists>df'. calculate_ema [(''close'', [Fin 10, Fin 11, Fin 12])] ''close'' [5, 10] = Inr df' \<and>
          map_of df' ''EMA5'' = Some [Fin 10, Fin (31 / 3), Fin (98 / 9)]"
    by (simp only: name vals)
  moreover have "list_all (\<lambda>p. 1 \<le> p) [5, 10::int]" by simp
  moreover have "list_all (\<lambda>p. ''EMA'' @ str_int p \<noteq> ''close'') [5, 10]" by simp
  ultimately show ?thesis using h1 h2 by (intro conjI)
qed




text \<open>The definitions that evaluate the index on a concrete column.\<close>

lemmas rsi_eval = calculate_rsi_def get_column_def set_column_def rsi_series_def rolling_mean_def
  rolling_def window_at_def window_mean_def rsi_up_def rsi_down_def diff_def shift1_def
  rsi_value_def fsub_def str_int_def string_of_nat.simps digit_char_def Let_def upt_rec

text \<open>
  Claim C6, as the specification has it: wherever the windowed mean of the falls is
  exactly 0, RSI is exactly 100. It fails on flat prices: on seven closes of 5 the mean of
  the falls at the last position is 0, the mean of the rises is 0 as well, and \<^verbatim>\<open>RSI6\<close> is
  not-a-number there.
\<close>

theorem flat_series_rsi_counterexample:
  "rolling_mean 6 (rsi_down (diff [Fin 5, Fin 5, Fin 5, Fin 5, Fin 5, Fin 5, Fin 5]))
     = Inr [NaN, NaN, NaN, NaN, NaN, NaN, Fin 0]
   \<and> calculate_rsi [(''close'', [Fin 5, Fin 5, Fin 5, Fin 5, Fin 5, Fin 5, Fin 5])] ''close'' [6]
     = Inr [(''close'', [Fin 5, Fin 5, Fin 5, Fin 5, Fin 5, Fin 5, Fin 5]),
            (''RSI6'', [NaN, NaN, NaN, NaN, NaN, NaN, NaN])]"
  by (simp add: rsi_eval)

text \<open>
  Claim C6, amended: \<^verbatim>\<open>calculate_rsi\<close> raises nothing (for periods that are not negative),
  and at every position where the windowed mean of the falls is exactly 0 and the windowed
  mean of the rises is positive, RSI is exactly 100. In particular, on strictly increasing
  finite closes \<^verbatim>\<open>RSI6\<close> is 100 at every position from index 6 on, that is from the sixth
  difference on.
\<close>

theorem rsi_without_falls:
  assumes "map_of df column = Some xs"
    and "n \<in> set periods"
    and "\<forall>p\<in>set periods. 0 \<le> p"
    and "i < length xs"
  shows "\<exists>df' ys us ds.
           calculate_rsi df column periods = Inr df' \<and>
           map_of df' (''RSI'' @ str_int n) = Some ys \<and> length ys = length xs \<and>
           rolling_mean n (rsi_up (diff xs)) = Inr us \<and>
           rolling_mean n (rsi_down (diff xs)) = Inr ds \<and>
           (ds ! i = Fin 0 \<and> (\<exists>u>0. us ! i = Fin u) \<longrightarrow> ys ! i = Fin 100) \<and>
           (n = 6 \<and> 6 \<le> i \<and> (\<exists>cs. xs = map Fin cs \<and> sorted_wrt (<) cs) \<longrightarrow> ys ! i = Fin 100)"
proof -
  let ?us = "rolling (nat n) (window_mean (nat n)) (rsi_up (diff xs))"
  let ?ds = "rolling (nat n) (window_mean (nat n)) (rsi_down (diff xs))"
  let ?ys = "map (\<lambda>(u, d). rsi_value u d) (zip ?us ?ds)"
  from assms(2,3) have n: "\<not> n < 0" by auto
  from rsi_loop_columns [OF assms(3), of df "diff xs"] obtain df' where
    run: "rsi_loop df (diff xs) periods = Inr df'" and
    cols: "\<And>m. map_of df' (''RSI'' @ str_int m) =
       (if m \<in> set periods
        then Some (map (\<lambda>(u, d). rsi_value u d)
               (zip (rolling (nat m) (window_mean (nat m)) (rsi_up (diff xs)))
                    (rolling (nat m) (window_mean (nat m)) (rsi_down (diff xs)))))
        else map_of df (''RSI'' @ str_int m))"
    by blast
  have c1: "calculate_rsi df column periods = Inr df'"
    using assms(1) run by (simp add: calculate_rsi_def get_column_def)
  have c2: "map_of df' (''RSI'' @ str_int n) = Some ?ys"
    using cols [of n] assms(2) by simp
  have c3: "length ?ys = length xs" by simp
  have c4: "rolling_mean n (rsi_up (diff xs)) = Inr ?us"
    and c5: "rolling_mean n (rsi_down (diff xs)) = Inr ?ds"
    using n by (simp_all add: rolling_mean_def)
  have at: "?ys ! i = rsi_value (?us ! i) (?ds ! i)"
    using assms(4) by simp
  have c6: "?ds ! i = Fin 0 \<and> (\<exists>u>0. ?us ! i = Fin u) \<longrightarrow> ?ys ! i = Fin 100"
    by (auto simp only: at rsi_value_rising)
  have c7: "n = 6 \<and> 6 \<le> i \<and> (\<exists>cs. xs = map Fin cs \<and> sorted_wrt (<) cs) \<longrightarrow> ?ys ! i = Fin 100"
  proof (intro impI, elim conjE exE)
    fix cs assume n6: "n = 6" and i6: "6 \<le> i" and xs: "xs = map Fin cs" and up: "sorted_wrt (<) cs"
    from assms(4) xs have len: "i < length cs" by simp
    from n6 have w: "nat n = 6" by simp
    have "?ds ! i = Fin 0"
      using rising_rsi(1) [OF up _ _ len, of 6] i6 by (simp only: w xs)
    moreover have "\<exists>u>0. ?us ! i = Fin u"
      using rising_rsi(2) [OF up _ _ len, of 6] i6 by (simp only: w xs)
    ultimately show "?ys ! i = Fin 100" using c6 by blast
  qed
  from c1 c2 c3 c4 c5 c6 c7 show ?thesis by blast
qed

text \<open>The amended claim C6 on the closes 1 to 7, read at the last position.\<close>

theorem rsi_without_falls_witness:
  "map_of [(''close'', map Fin [1, 2, 3, 4, 5, 6, 7])] ''close'' = Some (map Fin [1, 2, 3, 4, 5, 6, 7])
   \<and> (6::int) \<in> set [6]
   \<and> list_all (\<lambda>p. 0 \<le> p) [6::int]
   \<and> (6::nat) < length (map Fin [1, 2, 3, 4, 5, 6, 7])
   \<and> sorted_wrt (<) [1, 2, 3, 4, 5, 6, 7 :: real]
   \<and> rolling_mean 6 (rsi_down (diff (map Fin [1, 2, 3, 4, 5, 6, 7])))
       = Inr [NaN, NaN, NaN, NaN, NaN, NaN, Fin 0]
   \<and> rolling_mean 6 (rsi_up (diff (map Fin [1, 2, 3, 4, 5, 6, 7])))
       = Inr [NaN, NaN, NaN, NaN, NaN, NaN, Fin 1]
   \<and> (\<exists>df' ys. calculate_rsi [(''close'', map Fin [1, 2, 3, 4, 5, 6, 7])] ''close'' [6] = Inr df' \<and>
          map_of df' ''RSI6'' = Some ys \<and> length ys = 7 \<and> ys ! 6 = Fin 100)"
proof -
  let ?cs = "[1, 2, 3, 4, 5, 6, 7 :: real]"
  have h1: "map_of [(''close'', map Fin ?cs)] ''close'' = Some (map Fin ?cs)" by simp
  have h2: "(6::int) \<in> set [6]" by simp
  have h3: "\<forall>p\<in>set [6::int]. 0 \<le> p" by simp
  have h4: "(6::nat) < length (map Fin ?cs)" by simp
  have up: "sorted_wrt (<) ?cs" by simp
  have ds: "rolling_mean 6 (rsi_down (diff (map Fin ?cs))) = Inr [NaN, NaN, NaN, NaN, NaN, NaN, Fin 0]"
    by (simp add: rsi_eval)
  have us: "rolling_mean 6 (rsi_up (diff (map Fin ?cs))) = Inr [NaN, NaN, NaN, NaN, NaN, NaN, Fin 1]"
    by (simp add: rsi_eval)
  have name: "''RSI'' @ str_int 6 = ''RSI6''"
    by (simp add: str_int_def string_of_nat.simps digit_char_def)
  from rsi_without_falls [OF h1 h2 h3 h4] obtain df' ys where
    run: "calculate_rsi [(''close'', map Fin ?cs)] ''close'' [6] = Inr df'" and
    col: "map_of df' (''RSI'' @ str_int 6) = Some ys" and
    len: "length ys = length (map Fin ?cs)" and
    rising: "(6::int) = 6 \<and> (6::nat) \<le> 6 \<and> (\<exists>cs. map Fin ?cs = map Fin cs \<and> sorted_wrt (<) cs)
               \<longrightarrow> ys ! 6 = Fin 100"
    by blast
  from up have "\<exists>cs. map Fin ?cs = map Fin cs \<and> sorted_wrt (<) cs" by blast
  with rising have "ys ! 6 = Fin 100" by simp
  moreover from len have "length ys = 7" by simp
  ultimately have "\<exists>df' ys. calculate_rsi [(''close'', map Fin ?cs)] ''close'' [6] = Inr df' \<and>
          map_of df' ''RSI6'' = Some ys \<and> length ys = 7 \<and> ys ! 6 = Fin 100"
    using run col by (simp only: name) blast
  moreover have "list_all (\<lambda>p. 0 \<le> p) [6::int]" by simp
  ultimately show ?thesis using h1 h2 h4 up ds us by (intro conjI)
qed

section \<open>The claims about the filter engine\<close>

text \<open>The definitions that evaluate an evaluator on a concrete store.\<close>

lemmas filter_eval = filter_by_volume_def filter_by_bollinger_bands_def filter_by_macd_def
  filter_by_kdj_def filter_by_ma_def latest_dates_def
  Let_def stock_codes_def sql_gt_def sql_lt_def
  null_daily_row_def null_indicator_row_def

text \<open>The definitions that evaluate the double arithmetic on concrete numbers.\<close>

lemmas double_eval = sql_real_def sql_div_100_def dadd_def dsub_def dmul_def ddiv_def
  rounded_def fsub_def fgt_def round_double_def round_at_def double_exponent_def
  double_mantissa_def ilog2.simps pow2_def round_half_even_def Let_def

text \<open>
  Claim C3, as the specification has it: a symbol qualifies for the squeeze exactly when
  today's width is below 0.9 times yesterday's, the width being the normalized quantity
  \<open>(upper - lower) / middle\<close>. The evaluator does not divide by the middle band: below, the
  normalized width falls from 0.2 to 0.15, which is under 0.9 times 0.2, yet the symbol is
  not selected, since the band distance grows from 2 to 3.
\<close>

theorem squeeze_normalized_width_counterexample:
  "((43 / 2 - 37 / 2) / 20 :: real) < 9 / 10 * ((11 - 9) / 10)
   \<and> filter_by_bollinger_bands
       \<lparr>daily_data = [],
        technical_indicators =
          [(null_indicator_row ''A'' ''2024-01-01'')
             \<lparr>t_bb_upper := Some 11, t_bb_middle := Some 10, t_bb_lower := Some 9\<rparr>,
           (null_indicator_row ''A'' ''2024-01-02'')
             \<lparr>t_bb_upper := Some (43 / 2), t_bb_middle := Some 20,
              t_bb_lower := Some (37 / 2)\<rparr>]\<rparr>
       ''squeeze'' = []"
proof -
  have wider: "\<not> flt (dsub (sql_real (Some (43 / 2))) (sql_real (Some (37 / 2))))
                  (dmul (dsub (sql_real (Some 11)) (sql_real (Some 9))) (round_double (9 / 10)))"
    by (simp add: double_eval)
  show ?thesis by (simp add: filter_eval wider)
qed

text \<open>
  Claim C3, amended: for the latest date and the date before it in the indicator table, a
  symbol qualifies for the squeeze exactly when it has a row on each of the two dates and
  today's band distance \<open>upper - lower\<close> is strictly less than yesterday's band distance
  times 0.9, all four band values being present and the two differences and the product
  being those of double-precision arithmetic, as the store computes them. The distance is
  not divided by the middle band. In particular a distance of 10 yesterday and 8 today
  qualifies, and 9.5 today does not.
\<close>

theorem squeeze_band_distance:
  assumes "latest \<in> t_date ` set (technical_indicators db)"
    and "prev \<in> t_date ` set (technical_indicators db)"
    and "prev < latest"
    and "\<forall>t\<in>set (technical_indicators db). t_date t = latest \<or> t_date t \<le> prev"
  shows "c \<in> set (filter_by_bollinger_bands db ''squeeze'') \<longleftrightarrow>
           (\<exists>t1\<in>set (technical_indicators db). \<exists>t2\<in>set (technical_indicators db).
              t_code t1 = c \<and> t_date t1 = latest \<and> t_code t2 = c \<and> t_date t2 = prev \<and>
              (\<exists>u1 l1 u2 l2. t_bb_upper t1 = Some u1 \<and> t_bb_lower t1 = Some l1 \<and>
                 t_bb_upper t2 = Some u2 \<and> t_bb_lower t2 = Some l2 \<and>
                 flt (dsub (round_double u1) (round_double l1))
                   (dmul (dsub (round_double u2) (round_double l2)) (round_double (9 / 10)))))"
proof -
  have "latest_dates (map t_date (technical_indicators db)) = [latest, prev]"
    using assms by (intro latest_dates_pair) auto
  then show ?thesis
    by (simp only: squeeze_rows squeeze_cond)
qed

text \<open>
  The amended claim C3 on \<open>squeeze_store\<close>: symbol A (10 to 8) qualifies, symbol B
  (10 to 9.5) does not.
\<close>

theorem squeeze_band_distance_witness:
  "''2024-01-02'' \<in> t_date ` set (technical_indicators squeeze_store)
   \<and> ''2024-01-01'' \<in> t_date ` set (technical_indicators squeeze_store)
   \<and> ''2024-01-01'' < ''2024-01-02''
   \<and> list_all (\<lambda>t. t_date t = ''2024-01-02'' \<or> t_date t \<le> ''2024-01-01'')
         (technical_indicators squeeze_store)
   \<and> ''A'' \<in> set (filter_by_bollinger_bands squeeze_store ''squeeze'')
   \<and> ''B'' \<notin> set (filter_by_bollinger_bands squeeze_store ''squeeze'')"
proof -
  have h1: "''2024-01-02'' \<in> t_date ` set (technical_indicators squeeze_store)"
    by (simp add: squeeze_store_def null_indicator_row_def)
  have h2: "''2024-01-01'' \<in> t_date ` set (technical_indicators squeeze_store)"
    by (simp add: squeeze_store_def null_indicator_row_def)
  have h3: "''2024-01-01'' < ''2024-01-02''" by simp
  have h4: "\<forall>t\<in>set (technical_indicators squeeze_store).
         t_date t = ''2024-01-02'' \<or> t_date t \<le> ''2024-01-01''"
    by (simp add: squeeze_store_def null_indicator_row_def)
  have narrow: "flt (dsub (sql_real (Some 14)) (sql_real (Some 6)))
                  (dmul (dsub (sql_real (Some 15)) (sql_real (Some 5))) (round_double (9 / 10)))"
    by (simp add: double_eval)
  have wide: "\<not> flt (dsub (sql_real (Some (59 / 4))) (sql_real (Some (21 / 4))))
                  (dmul (dsub (sql_real (Some 15)) (sql_real (Some 5))) (round_double (9 / 10)))"
    by (simp add: double_eval)
  note iff = squeeze_band_distance [OF h1 h2 h3 h4, unfolded squeeze_cond [symmetric]]
  have a: "''A'' \<in> set (filter_by_bollinger_bands squeeze_store ''squeeze'')"
    unfolding iff by (simp add: squeeze_store_def null_indicator_row_def narrow)
  have b: "''B'' \<notin> set (filter_by_bollinger_bands squeeze_store ''squeeze'')"
    unfolding iff by (simp add: squeeze_store_def null_indicator_row_def wide)
  have l4: "list_all (\<lambda>t. t_date t = ''2024-01-02'' \<or> t_date t \<le> ''2024-01-01'')
         (technical_indicators squeeze_store)"
    using h4 by (simp only: list_all_iff)
  from h1 h2 h3 l4 a b show ?thesis by (intro conjI)
qed

text \<open>
  Rounding decides at the boundary. With the bands 0 and 7 yesterday and 0 and 6.3 today,
  the product of 7 and 0.9 rounds to the double of 6.3 and the symbol is not selected; with
  0 and 13 yesterday and 0 and 11.7 today, the product rounds to the double above that of
  11.7 and the symbol is selected.
\<close>

lemma squeeze_rounding_examples:
  "filter_by_bollinger_bands
     \<lparr>daily_data = [],
      technical_indicators =
        [(null_indicator_row ''A'' ''2024-01-01'')\<lparr>t_bb_upper := Some 7, t_bb_lower := Some 0\<rparr>,
         (null_indicator_row ''A'' ''2024-01-02'')
           \<lparr>t_bb_upper := Some (63 / 10), t_bb_lower := Some 0\<rparr>]\<rparr>
     ''squeeze'' = []
   \<and> filter_by_bollinger_bands
     \<lparr>daily_data = [],
      technical_indicators =
        [(null_indicator_row ''A'' ''2024-01-01'')\<lparr>t_bb_upper := Some 13, t_bb_lower := Some 0\<rparr>,
         (null_indicator_row ''A'' ''2024-01-02'')
           \<lparr>t_bb_upper := Some (117 / 10), t_bb_lower := Some 0\<rparr>]\<rparr>
     ''squeeze'' = [''A'']"
proof -
  have e1: "\<not> flt (dsub (sql_real (Some (63 / 10))) (sql_real (Some 0)))
                (dmul (dsub (sql_real (Some 7)) (sql_real (Some 0))) (round_double (9 / 10)))"
    by (simp add: double_eval)
  have e2: "flt (dsub (sql_real (Some (117 / 10))) (sql_real (Some 0)))
                (dmul (dsub (sql_real (Some 13)) (sql_real (Some 0))) (round_double (9 / 10)))"
    by (simp add: double_eval)
  show ?thesis by (simp add: filter_eval e1 e2)
qed

text \<open>
  Claim C8, as the specification has it: \<^verbatim>\<open>increase\<close> selects the symbols whose volume is
  greater than or equal to \<open>(1 + t/100)\<close> times yesterday's. The comparison of the code is
  strict: with \<open>t = 25\<close>, where every step of the arithmetic is exact in double precision,
  a volume going from 100 to exactly 125 is not selected.
\<close>

theorem volume_threshold_counterexample:
  "(100::real) * (1 + 25 / 100) \<le> 125
   \<and> dmul (round_double 100) (dadd (Fin 1) (ddiv (round_double 25) (Fin 100))) = Fin 125
   \<and> filter_by_volume
       \<lparr>daily_data = [(null_daily_row ''A'' ''2024-01-01'')\<lparr>d_volume := Some 100\<rparr>,
                       (null_daily_row ''A'' ''2024-01-02'')\<lparr>d_volume := Some 125\<rparr>],
        technical_indicators = []\<rparr> ''increase'' (Some (PyFloat 25)) = []"
proof -
  have exact: "dmul (round_double 100) (dadd (Fin 1) (ddiv (round_double 25) (Fin 100))) = Fin 125"
    by (simp add: double_eval)
  have equal: "\<not> fgt (sql_real (Some 125))
                  (dmul (sql_real (Some 100)) (dadd (Fin 1) (sql_div_100 (PyFloat 25))))"
    by (simp add: double_eval)
  show ?thesis using exact by (simp add: filter_eval equal)
qed

text \<open>
  Claim C8, amended: for the latest date and the date before it in the bar table and every
  threshold \<open>t\<close> supplied as a float, \<^verbatim>\<open>increase\<close> selects exactly the symbols whose volume
  today is strictly greater than yesterday's volume times \<open>1 + t/100\<close>, and \<^verbatim>\<open>decrease\<close>
  exactly those whose volume today is strictly less than yesterday's volume times
  \<open>1 - t/100\<close>, both volumes being present and the quotient, the sum or difference and the
  product being those of double-precision arithmetic, as the store computes them.
\<close>

theorem volume_change_strict:
  assumes "latest \<in> d_date ` set (daily_data db)"
    and "prev \<in> d_date ` set (daily_data db)"
    and "prev < latest"
    and "\<forall>r\<in>set (daily_data db). d_date r = latest \<or> d_date r \<le> prev"
  shows "(c \<in> set (filter_by_volume db ''increase'' (Some (PyFloat t))) \<longleftrightarrow>
           (\<exists>d1\<in>set (daily_data db). \<exists>d2\<in>set (daily_data db).
              d_code d1 = c \<and> d_date d1 = latest \<and> d_code d2 = c \<and> d_date d2 = prev \<and>
              (\<exists>v1 v2. d_volume d1 = Some v1 \<and> d_volume d2 = Some v2 \<and>
                 fgt (round_double v1)
                   (dmul (round_double v2) (dadd (Fin 1) (ddiv (round_double t) (Fin 100)))))))
       \<and> (c \<in> set (filter_by_volume db ''decrease'' (Some (PyFloat t))) \<longleftrightarrow>
           (\<exists>d1\<in>set (daily_data db). \<exists>d2\<in>set (daily_data db).
              d_code d1 = c \<and> d_date d1 = latest \<and> d_code d2 = c \<and> d_date d2 = prev \<and>
              (\<exists>v1 v2. d_volume d1 = Some v1 \<and> d_volume d2 = Some v2 \<and>
                 flt (round_double v1)
                   (dmul (round_double v2) (dsub (Fin 1) (ddiv (round_double t) (Fin 100)))))))"
proof -
  have dates: "latest_dates (map d_date (daily_data db)) = [latest, prev]"
    using assms by (intro latest_dates_pair) auto
  have inc: "filter_by_volume db ''increase'' (Some (PyFloat t)) =
      remdups [d_code d1. d1 \<leftarrow> daily_data db, d2 \<leftarrow> daily_data db, d_code d1 = d_code d2,
                 d_date d1 = latest \<and> d_date d2 = prev,
                 fgt (sql_real (d_volume d1))
                   (dmul (sql_real (d_volume d2))
                      (dadd (Fin 1) (ddiv (round_double t) (Fin 100))))]"
    using dates
    by (simp add: filter_by_volume_def Let_def stock_codes_def sql_div_100_def cong: if_cong)
  have dec: "filter_by_volume db ''decrease'' (Some (PyFloat t)) =
      remdups [d_code d1. d1 \<leftarrow> daily_data db, d2 \<leftarrow> daily_data db, d_code d1 = d_code d2,
                 d_date d1 = latest \<and> d_date d2 = prev,
                 flt (sql_real (d_volume d1))
                   (dmul (sql_real (d_volume d2))
                      (dsub (Fin 1) (ddiv (round_double t) (Fin 100))))]"
    using dates
    by (simp add: filter_by_volume_def Let_def stock_codes_def sql_div_100_def cong: if_cong)
  show ?thesis
  proof
    show "c \<in> set (filter_by_volume db ''increase'' (Some (PyFloat t))) \<longleftrightarrow>
           (\<exists>d1\<in>set (daily_data db). \<exists>d2\<in>set (daily_data db).
              d_code d1 = c \<and> d_date d1 = latest \<and> d_code d2 = c \<and> d_date d2 = prev \<and>
              (\<exists>v1 v2. d_volume d1 = Some v1 \<and> d_volume d2 = Some v2 \<and>
                 fgt (round_double v1)
                   (dmul (round_double v2) (dadd (Fin 1) (ddiv (round_double t) (Fin 100))))))"
      by (simp only: inc in_pair_query pair_reorder volume_cond)
    show "c \<in> set (filter_by_volume db ''decrease'' (Some (PyFloat t))) \<longleftrightarrow>
           (\<exists>d1\<in>set (daily_data db). \<exists>d2\<in>set (daily_data db).
              d_code d1 = c \<and> d_date d1 = latest \<and> d_code d2 = c \<and> d_date d2 = prev \<and>
              (\<exists>v1 v2. d_volume d1 = Some v1 \<and> d_volume d2 = Some v2 \<and>
                 flt (round_double v1)
                   (dmul (round_double v2) (dsub (Fin 1) (ddiv (round_double t) (Fin 100))))))"
      by (simp only: dec in_pair_query pair_reorder volume_cond)
  qed
qed

text \<open>
  The amended claim C8 on \<open>volume_store\<close> with the threshold 25.0: A (plus 30 percent) is an
  increase, B (plus exactly 25 percent) is not, C (minus 30 percent) is a decrease.
\<close>

theorem volume_change_strict_witness:
  "''2024-01-02'' \<in> d_date ` set (daily_data volume_store)
   \<and> ''2024-01-01'' \<in> d_date ` set (daily_data volume_store)
   \<and> ''2024-01-01'' < ''2024-01-02''
   \<and> list_all (\<lambda>r. d_date r = ''2024-01-02'' \<or> d_date r \<le> ''2024-01-01'')
         (daily_data volume_store)
   \<and> ''A'' \<in> set (filter_by_volume volume_store ''increase'' (Some (PyFloat 25)))
   \<and> ''B'' \<notin> set (filter_by_volume volume_store ''increase'' (Some (PyFloat 25)))
   \<and> ''C'' \<in> set (filter_by_volume volume_store ''decrease'' (Some (PyFloat 25)))"
proof -
  have h1: "''2024-01-02'' \<in> d_date ` set (daily_data volume_store)"
    by (simp add: volume_store_def null_daily_row_def)
  have h2: "''2024-01-01'' \<in> d_date ` set (daily_data volume_store)"
    by (simp add: volume_store_def null_daily_row_def)
  have h3: "''2024-01-01'' < ''2024-01-02''" by simp
  have h4: "\<forall>r\<in>set (daily_data volume_store).
      d_date r = ''2024-01-02'' \<or> d_date r \<le> ''2024-01-01''"
    by (simp add: volume_store_def null_daily_row_def)
  have up: "dmul (round_double 100) (dadd (Fin 1) (ddiv (round_double 25) (Fin 100))) = Fin 125"
    by (simp add: double_eval)
  have down: "dmul (round_double 100) (dsub (Fin 1) (ddiv (round_double 25) (Fin 100))) = Fin 75"
    by (simp add: double_eval)
  have vols: "round_double 130 = Fin 130" "round_double 125 = Fin 125" "round_double 70 = Fin 70"
    by (simp_all add: double_eval)
  note inc = volume_change_strict [OF h1 h2 h3 h4, THEN conjunct1]
  note dec = volume_change_strict [OF h1 h2 h3 h4, THEN conjunct2]
  have a: "''A'' \<in> set (filter_by_volume volume_store ''increase'' (Some (PyFloat 25)))"
    unfolding inc by (simp add: volume_store_def null_daily_row_def up vols fgt_def)
  have b: "''B'' \<notin> set (filter_by_volume volume_store ''increase'' (Some (PyFloat 25)))"
    unfolding inc by (simp add: volume_store_def null_daily_row_def up vols fgt_def)
  have c: "''C'' \<in> set (filter_by_volume volume_store ''decrease'' (Some (PyFloat 25)))"
    unfolding dec by (simp add: volume_store_def null_daily_row_def down vols)
  have l4: "list_all (\<lambda>r. d_date r = ''2024-01-02'' \<or> d_date r \<le> ''2024-01-01'')
         (daily_data volume_store)"
    using h4 by (simp only: list_all_iff)
  from h1 h2 h3 l4 a b c show ?thesis by (intro conjI)
qed

text \<open>
  Rounding decides at the boundary here too. With the threshold 15.0 the product of 100
  and \<open>1 + 15/100\<close> rounds to the double just below 115, so a volume going from 100 to 115 is
  selected as an increase; with 58.0 the product of 100 and \<open>1 - 58/100\<close> rounds to the
  double just above 42, so a volume going from 100 to 42 is selected as a decrease.
\<close>

lemma volume_rounding_examples:
  "filter_by_volume
     \<lparr>daily_data = [(null_daily_row ''A'' ''2024-01-01'')\<lparr>d_volume := Some 100\<rparr>,
                     (null_daily_row ''A'' ''2024-01-02'')\<lparr>d_volume := Some 115\<rparr>],
      technical_indicators = []\<rparr> ''increase'' (Some (PyFloat 15)) = [''A'']
   \<and> filter_by_volume
     \<lparr>daily_data = [(null_daily_row ''A'' ''2024-01-01'')\<lparr>d_volume := Some 100\<rparr>,
                     (null_daily_row ''A'' ''2024-01-02'')\<lparr>d_volume := Some 42\<rparr>],
      technical_indicators = []\<rparr> ''decrease'' (Some (PyFloat 58)) = [''A'']"
proof -
  have e1: "fgt (sql_real (Some 115))
              (dmul (sql_real (Some 100)) (dadd (Fin 1) (sql_div_100 (PyFloat 15))))"
    by (simp add: double_eval)
  have e2: "flt (sql_real (Some 42))
              (dmul (sql_real (Some 100)) (dsub (Fin 1) (sql_div_100 (PyFloat 58))))"
    by (simp add: double_eval)
  show ?thesis by (simp add: filter_eval e1 e2)
qed

text \<open>
  The default of the threshold is outside the amended claim C8. With no threshold the
  statement receives the Python integer 20, the quotient \<^verbatim>\<open>?/100\<close> of two integers is 0,
  and a rise of 10 percent is selected.
\<close>

lemma default_threshold_integer_quotient:
  "sql_div_100 (PyInt 20) = Fin 0
   \<and> filter_by_volume
       \<lparr>daily_data = [(null_daily_row ''A'' ''2024-01-01'')\<lparr>d_volume := Some 100\<rparr>,
                       (null_daily_row ''A'' ''2024-01-02'')\<lparr>d_volume := Some 110\<rparr>],
        technical_indicators = []\<rparr> ''increase'' None = [''A'']"
proof -
  have e1: "fgt (sql_real (Some 110))
              (dmul (sql_real (Some 100)) (dadd (Fin 1) (sql_div_100 (PyInt 20))))"
    by (simp add: double_eval)
  show ?thesis by (simp add: filter_eval e1) (simp add: sql_div_100_def)
qed

text \<open>
  Claim C4: when the table an evaluator reads holds fewer than two distinct dates, every
  cross-over condition (moving average \<^verbatim>\<open>cross_above\<close> and \<^verbatim>\<open>cross_below\<close>, MACD and KDJ
  \<^verbatim>\<open>golden_cross\<close> and \<^verbatim>\<open>dead_cross\<close>, and the five Bollinger conditions) yields the empty
  list. The evaluators have no raising path of their own: a failing statement is
  answered with \<^verbatim>\<open>None\<close> by \<^verbatim>\<open>Database.execute\<close> and read as no rows.
\<close>

theorem cross_filters_need_two_dates:
  "(card (set (map d_date (daily_data db))) < 2 \<longrightarrow>
      filter_by_ma db period ''cross_above'' = [] \<and> filter_by_ma db period ''cross_below'' = [])
   \<and> (card (set (map t_date (technical_indicators db))) < 2 \<longrightarrow>
      filter_by_macd db ''golden_cross'' = [] \<and> filter_by_macd db ''dead_cross'' = [] \<and>
      filter_by_kdj db ''golden_cross'' = [] \<and> filter_by_kdj db ''dead_cross'' = [] \<and>
      filter_by_bollinger_bands db ''upper_break'' = [] \<and>
      filter_by_bollinger_bands db ''lower_break'' = [] \<and>
      filter_by_bollinger_bands db ''middle_cross_above'' = [] \<and>
      filter_by_bollinger_bands db ''middle_cross_below'' = [] \<and>
      filter_by_bollinger_bands db ''squeeze'' = [])"
proof (intro conjI impI)
  assume "card (set (map d_date (daily_data db))) < 2"
  then have short: "length (latest_dates (map d_date (daily_data db))) < 2"
    by (rule latest_dates_few)
  show "filter_by_ma db period ''cross_above'' = []"
    using short by (simp add: filter_by_ma_def Let_def)
  show "filter_by_ma db period ''cross_below'' = []"
    using short by (simp add: filter_by_ma_def Let_def)
next
  assume "card (set (map t_date (technical_indicators db))) < 2"
  then have short: "length (latest_dates (map t_date (technical_indicators db))) < 2"
    by (rule latest_dates_few)
  show "filter_by_macd db ''golden_cross'' = []"
    using short by (simp add: filter_by_macd_def Let_def)
  show "filter_by_macd db ''dead_cross'' = []"
    using short by (simp add: filter_by_macd_def Let_def)
  show "filter_by_kdj db ''golden_cross'' = []"
    using short by (simp add: filter_by_kdj_def Let_def)
  show "filter_by_kdj db ''dead_cross'' = []"
    using short by (simp add: filter_by_kdj_def Let_def)
  show "filter_by_bollinger_bands db ''upper_break'' = []"
    using short by (simp add: filter_by_bollinger_bands_def Let_def)
  show "filter_by_bollinger_bands db ''lower_break'' = []"
    using short by (simp add: filter_by_bollinger_bands_def Let_def)
  show "filter_by_bollinger_bands db ''middle_cross_above'' = []"
    using short by (simp add: filter_by_bollinger_bands_def Let_def)
  show "filter_by_bollinger_bands db ''middle_cross_below'' = []"
    using short by (simp add: filter_by_bollinger_bands_def Let_def)
  show "filter_by_bollinger_bands db ''squeeze'' = []"
    using short by (simp add: filter_by_bollinger_bands_def Let_def)
qed

text \<open>Claim C4 on \<open>single_date_store\<close>, with the period 20.\<close>

theorem cross_filters_need_two_dates_witness:
  "card (set (map d_date (daily_data single_date_store))) < 2
   \<and> card (set (map t_date (technical_indicators single_date_store))) < 2
   \<and> filter_by_ma single_date_store 20 ''cross_above'' = []
   \<and> filter_by_ma single_date_store 20 ''cross_below'' = []
   \<and> filter_by_macd single_date_store ''golden_cross'' = []
   \<and> filter_by_macd single_date_store ''dead_cross'' = []
   \<and> filter_by_kdj single_date_store ''golden_cross'' = []
   \<and> filter_by_kdj single_date_store ''dead_cross'' = []
   \<and> filter_by_bollinger_bands single_date_store ''upper_break'' = []
   \<and> filter_by_bollinger_bands single_date_store ''lower_break'' = []
   \<and> filter_by_bollinger_bands single_date_store ''middle_cross_above'' = []
   \<and> filter_by_bollinger_bands single_date_store ''middle_cross_below'' = []
   \<and> filter_by_bollinger_bands single_date_store ''squeeze'' = []"
proof -
  have h1: "card (set (map d_date (daily_data single_date_store))) < 2"
    by (simp add: single_date_store_def null_daily_row_def)
  have h2: "card (set (map t_date (technical_indicators single_date_store))) < 2"
    by (simp add: single_date_store_def null_indicator_row_def)
  show ?thesis
    using h1 h2 cross_filters_need_two_dates [of single_date_store 20] by blast
qed

text \<open>
  Claim C9: with fewer than two distinct dates in the table read, the static conditions
  too yield the empty list: MACD \<^verbatim>\<open>positive\<close> and \<^verbatim>\<open>negative\<close>, KDJ \<^verbatim>\<open>oversold\<close> and
  \<^verbatim>\<open>overbought\<close>, and volume \<^verbatim>\<open>above_ma\<close> and \<^verbatim>\<open>below_ma\<close> under any threshold.
\<close>

theorem static_filters_need_two_dates:
  "(card (set (map t_date (technical_indicators db))) < 2 \<longrightarrow>
      filter_by_macd db ''positive'' = [] \<and> filter_by_macd db ''negative'' = [] \<and>
      filter_by_kdj db ''oversold'' = [] \<and> filter_by_kdj db ''overbought'' = [])
   \<and> (card (set (map d_date (daily_data db))) < 2 \<longrightarrow>
      filter_by_volume db ''above_ma'' threshold = [] \<and>
      filter_by_volume db ''below_ma'' threshold = [])"
proof (intro conjI impI)
  assume "card (set (map t_date (technical_indicators db))) < 2"
  then have short: "length (latest_dates (map t_date (technical_indicators db))) < 2"
    by (rule latest_dates_few)
  show "filter_by_macd db ''positive'' = []"
    using short by (simp add: filter_by_macd_def Let_def)
  show "filter_by_macd db ''negative'' = []"
    using short by (simp add: filter_by_macd_def Let_def)
  show "filter_by_kdj db ''oversold'' = []"
    using short by (simp add: filter_by_kdj_def Let_def)
  show "filter_by_kdj db ''overbought'' = []"
    using short by (simp add: filter_by_kdj_def Let_def)
next
  assume "card (set (map d_date (daily_data db))) < 2"
  then have short: "length (latest_dates (map d_date (daily_data db))) < 2"
    by (rule latest_dates_few)
  show "filter_by_volume db ''above_ma'' threshold = []"
    using short by (simp add: filter_by_volume_def Let_def)
  show "filter_by_volume db ''below_ma'' threshold = []"
    using short by (simp add: filter_by_volume_def Let_def)
qed

text \<open>Claim C9 on \<open>single_date_store\<close>, with a five-day volume mean.\<close>

theorem static_filters_need_two_dates_witness:
  "card (set (map t_date (technical_indicators single_date_store))) < 2
   \<and> card (set (map d_date (daily_data single_date_store))) < 2
   \<and> filter_by_macd single_date_store ''positive'' = []
   \<and> filter_by_macd single_date_store ''negative'' = []
   \<and> filter_by_kdj single_date_store ''oversold'' = []
   \<and> filter_by_kdj single_date_store ''overbought'' = []
   \<and> filter_by_volume single_date_store ''above_ma'' (Some (PyInt 5)) = []
   \<and> filter_by_volume single_date_store ''below_ma'' (Some (PyInt 5)) = []"
proof -
  have h1: "card (set (map t_date (technical_indicators single_date_store))) < 2"
    by (simp add: single_date_store_def null_indicator_row_def)
  have h2: "card (set (map d_date (daily_data single_date_store))) < 2"
    by (simp add: single_date_store_def null_daily_row_def)
  show ?thesis
    using h1 h2 static_filters_need_two_dates [of single_date_store "Some (PyInt 5)"] by blast
qed

text \<open>
  Claim C10: for a relation or condition outside the set its family knows, the evaluators
  \<^verbatim>\<open>filter_by_ma\<close>, \<^verbatim>\<open>filter_by_macd\<close>, \<^verbatim>\<open>filter_by_kdj\<close> and \<^verbatim>\<open>filter_by_bollinger_bands\<close>
  return the empty list, on every store.
\<close>

theorem unknown_condition_empty:
  "(relation \<notin> {''above'', ''below'', ''cross_above'', ''cross_below''} \<longrightarrow>
      filter_by_ma db period relation = [])
   \<and> (condition \<notin> {''golden_cross'', ''dead_cross'', ''positive'', ''negative''} \<longrightarrow>
      filter_by_macd db condition = [])
   \<and> (condition \<notin> {''golden_cross'', ''dead_cross'', ''oversold'', ''overbought''} \<longrightarrow>
      filter_by_kdj db condition = [])
   \<and> (condition \<notin> {''upper_break'', ''lower_break'', ''middle_cross_above'',
                     ''middle_cross_below'', ''squeeze''} \<longrightarrow>
      filter_by_bollinger_bands db condition = [])"
proof (intro conjI impI)
  show "filter_by_ma db period relation = []"
    if "relation \<notin> {''above'', ''below'', ''cross_above'', ''cross_below''}"
    using that by (simp add: filter_by_ma_def)
  show "filter_by_macd db condition = []"
    if "condition \<notin> {''golden_cross'', ''dead_cross'', ''positive'', ''negative''}"
    using that by (simp add: filter_by_macd_def Let_def)
  show "filter_by_kdj db condition = []"
    if "condition \<notin> {''golden_cross'', ''dead_cross'', ''oversold'', ''overbought''}"
    using that by (simp add: filter_by_kdj_def Let_def)
  show "filter_by_bollinger_bands db condition = []"
    if "condition \<notin> {''upper_break'', ''lower_break'', ''middle_cross_above'',
                     ''middle_cross_below'', ''squeeze''}"
    using that by (simp add: filter_by_bollinger_bands_def Let_def)
qed

text \<open>Claim C10 on \<open>squeeze_store\<close>, which holds two dates, with unknown names.\<close>

theorem unknown_condition_empty_witness:
  "''sideways'' \<notin> {''above'', ''below'', ''cross_above'', ''cross_below''}
   \<and> ''flat'' \<notin> {''golden_cross'', ''dead_cross'', ''positive'', ''negative''}
   \<and> ''flat'' \<notin> {''golden_cross'', ''dead_cross'', ''oversold'', ''overbought''}
   \<and> ''flat'' \<notin> {''upper_break'', ''lower_break'', ''middle_cross_above'',
                   ''middle_cross_below'', ''squeeze''}
   \<and> filter_by_ma squeeze_store 20 ''sideways'' = []
   \<and> filter_by_macd squeeze_store ''flat'' = []
   \<and> filter_by_kdj squeeze_store ''flat'' = []
   \<and> filter_by_bollinger_bands squeeze_store ''flat'' = []"
proof -
  have h1: "''sideways'' \<notin> {''above'', ''below'', ''cross_above'', ''cross_below''}" by simp
  have h2: "''flat'' \<notin> {''golden_cross'', ''dead_cross'', ''positive'', ''negative''}" by simp
  have h3: "''flat'' \<notin> {''golden_cross'', ''dead_cross'', ''oversold'', ''overbought''}" by simp
  have h4: "''flat'' \<notin> {''upper_break'', ''lower_break'', ''middle_cross_above'',
                   ''middle_cross_below'', ''squeeze''}" by simp
  note main = unknown_condition_empty
    [where relation = "''sideways''" and condition = "''flat''" and db = squeeze_store
       and period = 20]
  note ma = main [THEN conjunct1, THEN mp, OF h1]
  note macd = main [THEN conjunct2, THEN conjunct1, THEN mp, OF h2]
  note kdj = main [THEN conjunct2, THEN conjunct2, THEN conjunct1, THEN mp, OF h3]
  note bb = main [THEN conjunct2, THEN conjunct2, THEN conjunct2, THEN mp, OF h4]
  from h1 h2 h3 h4 ma macd kdj bb show ?thesis by (intro conjI)
qed

section \<open>The claim about the filter combinator\<close>

text \<open>
  Claim C5: \<^verbatim>\<open>combine_filters\<close> of no list is empty and of one list is that list; of
  several lists it holds, under \<^verbatim>\<open>'and'\<close>, the symbols common to all of them and,
  under \<^verbatim>\<open>'or'\<close>, the symbols of any of them. The membership of the result does not change
  when the lists are permuted, nor when they are combined group by group first (no group
  being empty under \<^verbatim>\<open>'and'\<close>), and the \<^verbatim>\<open>'and'\<close> result is contained in the \<^verbatim>\<open>'or'\<close> result.
\<close>

theorem combine_filters_set_algebra:
  "combine_filters [] logic = []
   \<and> combine_filters [S] logic = S
   \<and> (xs \<noteq> [] \<longrightarrow> set (combine_filters xs ''and'') = (\<Inter>S\<in>set xs. set S))
   \<and> set (combine_filters xs ''or'') = (\<Union>S\<in>set xs. set S)
   \<and> (mset ys = mset xs \<longrightarrow> set (combine_filters ys logic) = set (combine_filters xs logic))
   \<and> ((logic = ''and'' \<longrightarrow> [] \<notin> set groups) \<longrightarrow>
        set (combine_filters (map (\<lambda>g. combine_filters g logic) groups) logic)
          = set (combine_filters (concat groups) logic))
   \<and> set (combine_filters xs ''and'') \<subseteq> set (combine_filters xs ''or'')"
proof (intro conjI impI)
  show "combine_filters [] logic = []" by (simp add: combine_filters_def)
  show "combine_filters [S] logic = S" by (simp add: combine_filters_def)
  show "set (combine_filters xs ''and'') = (\<Inter>S\<in>set xs. set S)" if "xs \<noteq> []"
    using that by (simp add: set_combine_filters)
  show "set (combine_filters xs ''or'') = (\<Union>S\<in>set xs. set S)"
    by (simp add: set_combine_filters)
  show "set (combine_filters ys logic) = set (combine_filters xs logic)" if "mset ys = mset xs"
  proof -
    from that have "set ys = set xs" by (rule mset_eq_setD)
    moreover from that have "ys = [] \<longleftrightarrow> xs = []" by (metis mset_zero_iff)
    ultimately show ?thesis by (simp add: set_combine_filters)
  qed
  show "set (combine_filters (map (\<lambda>g. combine_filters g logic) groups) logic)
          = set (combine_filters (concat groups) logic)"
    if ne: "logic = ''and'' \<longrightarrow> [] \<notin> set groups"
  proof (cases "logic = ''and''")
    case True
    with ne have g: "\<forall>g\<in>set groups. g \<noteq> []" by auto
    then have "concat groups = [] \<longleftrightarrow> groups = []" by (cases groups) auto
    with True g show ?thesis by (auto simp: set_combine_filters)
  next
    case False
    then show ?thesis by (auto simp: set_combine_filters)
  qed
  show "set (combine_filters xs ''and'') \<subseteq> set (combine_filters xs ''or'')"
    by (cases xs) (auto simp: set_combine_filters)
qed

text \<open>Claim C5 on the lists A, B and B, C.\<close>

theorem combine_filters_set_algebra_witness:
  "[[''A'', ''B''], [''B'', ''C'']] \<noteq> []
   \<and> mset [[''B'', ''C''], [''A'', ''B'']] = mset [[''A'', ''B''], [''B'', ''C'']]
   \<and> [] \<notin> set [[[''A'', ''B'']], [[''B'', ''C''], [''B'']]]
   \<and> combine_filters [] ''and'' = []
   \<and> combine_filters [[''A'', ''B'']] ''and'' = [''A'', ''B'']
   \<and> set (combine_filters [[''A'', ''B''], [''B'', ''C'']] ''and'') = {''B''}
   \<and> set (combine_filters [[''A'', ''B''], [''B'', ''C'']] ''or'') = {''A'', ''B'', ''C''}
   \<and> set (combine_filters [[''B'', ''C''], [''A'', ''B'']] ''and'')
       = set (combine_filters [[''A'', ''B''], [''B'', ''C'']] ''and'')
   \<and> set (combine_filters
            (map (\<lambda>g. combine_filters g ''and'') [[[''A'', ''B'']], [[''B'', ''C''], [''B'']]]) ''and'')
       = set (combine_filters (concat [[[''A'', ''B'']], [[''B'', ''C''], [''B'']]]) ''and'')
   \<and> set (combine_filters [[''A'', ''B''], [''B'', ''C'']] ''and'')
       \<subseteq> set (combine_filters [[''A'', ''B''], [''B'', ''C'']] ''or'')"
proof -
  let ?xs = "[[''A'', ''B''], [''B'', ''C'']]"
  let ?ys = "[[''B'', ''C''], [''A'', ''B'']]"
  let ?groups = "[[[''A'', ''B'']], [[''B'', ''C''], [''B'']]]"
  have h1: "?xs \<noteq> []" by simp
  have h2: "mset ?ys = mset ?xs" by (simp add: add.commute)
  have h3: "''and'' = ''and'' \<longrightarrow> [] \<notin> set ?groups" by simp
  note main = combine_filters_set_algebra
    [where logic = "''and''" and S = "[''A'', ''B'']" and xs = ?xs and ys = ?ys
       and groups = ?groups]
  note c1 = main [THEN conjunct1]
  note c2 = main [THEN conjunct2, THEN conjunct1]
  note c3 = main [THEN conjunct2, THEN conjunct2, THEN conjunct1, THEN mp, OF h1]
  note c4 = main [THEN conjunct2, THEN conjunct2, THEN conjunct2, THEN conjunct1]
  note c5 = main [THEN conjunct2, THEN conjunct2, THEN conjunct2, THEN conjunct2,
    THEN conjunct1, THEN mp, OF h2]
  note c6 = main [THEN conjunct2, THEN conjunct2, THEN conjunct2, THEN conjunct2,
    THEN conjunct2, THEN conjunct1, THEN mp, OF h3]
  note c7 = main [THEN conjunct2, THEN conjunct2, THEN conjunct2, THEN conjunct2,
    THEN conjunct2, THEN conjunct2]
  have inter: "(\<Inter>S\<in>set ?xs. set S) = {''B''}" by auto
  have union: "(\<Union>S\<in>set ?xs. set S) = {''A'', ''B'', ''C''}" by auto
  from c3 have a: "set (combine_filters ?xs ''and'') = {''B''}"
    by (simp only: inter)
  from c4 have o: "set (combine_filters ?xs ''or'') = {''A'', ''B'', ''C''}"
    by (simp only: union)
  have g: "[] \<notin> set ?groups" by simp
  from h1 h2 g c1 c2 a o c5 c6 c7 show ?thesis by (intro conjI)
qed

end
